theory Spec2Isabelle
  imports Main "HOL-Library.Word"
begin

section \<open>Values, errors and the byte codec\<close>

text \<open>
  The Mambo client (Mambo.py) packs commands into byte strings with Python's
  \<^verbatim>\<open>struct\<close> module and unpacks telemetry frames with it. A byte is an 8-bit word,
  a packet a list of bytes. Python's unbounded integers are \<open>int\<close>.
\<close>

type_synonym byte = "8 word"

text \<open>The exceptions the modelled code can raise.\<close>

datatype error =
    BTLEException
  | StructError
  | IndexError
  | KeyError
  | TypeError
  | AttributeError

text \<open>
  The values a sensor field can hold: \<^verbatim>\<open>None\<close>, an integer, a float (kept as the
  little-endian IEEE bytes it was unpacked from), a text string, or the raw one-byte
  string that the format \<^verbatim>\<open>"<s"\<close> unpacks.
\<close>

datatype pyval =
    PNone
  | PInt int
  | PFloat "byte list"
  | PStr string
  | PBytes "byte list"

subsection \<open>struct.pack\<close>

text \<open>
  Little-endian encoding of an integer in \<open>n\<close> bytes (two's complement for a negative one).
\<close>

fun le_bytes :: "nat \<Rightarrow> int \<Rightarrow> byte list" where
  "le_bytes 0 v = []"
| "le_bytes (Suc n) v = word_of_int v # le_bytes n (v div 256)"

text \<open>
  One field of \<^verbatim>\<open>struct.pack\<close>: the formats \<^verbatim>\<open>B\<close>, \<^verbatim>\<open>b\<close>, \<^verbatim>\<open>h\<close> and \<^verbatim>\<open>I\<close>
  raise \<^verbatim>\<open>struct.error\<close> when the number does not fit.
\<close>

definition pack_B :: "int \<Rightarrow> error + byte list" where
  "pack_B v = (if 0 \<le> v \<and> v \<le> 255 then Inr (le_bytes 1 v) else Inl StructError)"

definition pack_b :: "int \<Rightarrow> error + byte list" where
  "pack_b v = (if -128 \<le> v \<and> v \<le> 127 then Inr (le_bytes 1 v) else Inl StructError)"

definition pack_h :: "int \<Rightarrow> error + byte list" where
  "pack_h v = (if -32768 \<le> v \<and> v \<le> 32767 then Inr (le_bytes 2 v) else Inl StructError)"

definition pack_I :: "int \<Rightarrow> error + byte list" where
  "pack_I v = (if 0 \<le> v \<and> v \<le> 4294967295 then Inr (le_bytes 4 v) else Inl StructError)"

text \<open>
  \<^verbatim>\<open>struct.pack\<close> of several fields packs them from left to right and concatenates;
  the first field that does not fit raises.
\<close>

fun pack :: "(error + byte list) list \<Rightarrow> error + byte list" where
  "pack [] = Inr []"
| "pack (f # fs) =
     (case f of
        Inl e \<Rightarrow> Inl e
      | Inr bs \<Rightarrow> (case pack fs of Inl e \<Rightarrow> Inl e | Inr rest \<Rightarrow> Inr (bs @ rest)))"

subsection \<open>struct.unpack_from\<close>

text \<open>
  \<^verbatim>\<open>struct.unpack_from(fmt, data, offset)\<close> raises \<^verbatim>\<open>struct.error\<close> unless the
  buffer holds \<open>n\<close> bytes from \<open>offset\<close> on.
\<close>

definition unpack_from :: "nat \<Rightarrow> byte list \<Rightarrow> nat \<Rightarrow> error + byte list" where
  "unpack_from n data offset =
     (if length data < offset + n then Inl StructError
      else Inr (take n (drop offset data)))"

fun le_unsigned :: "byte list \<Rightarrow> int" where
  "le_unsigned [] = 0"
| "le_unsigned (b # bs) = uint b + 256 * le_unsigned bs"

definition le_signed :: "byte list \<Rightarrow> int" where
  "le_signed bs =
     (let v = le_unsigned bs; n = 8 * length bs
      in if v < 2 ^ (n - 1) then v else v - 2 ^ n)"

text \<open>
  Python compares a float with an integer exactly. \<open>float_gt bs n\<close> is \<^verbatim>\<open>f > n\<close>
  for the IEEE 754 number \<open>f\<close> with the little-endian bytes \<open>bs\<close> (4 bytes for a single,
  8 for a double) and the non-negative integer \<open>n\<close>: false for a NaN and for a number with
  the sign bit set, true for plus infinity.
\<close>

definition float_gt :: "byte list \<Rightarrow> nat \<Rightarrow> bool" where
  "float_gt bs n =
     (let bits = nat (le_unsigned bs);
          p = (if length bs = 4 then 23 else 52);
          w = (if length bs = 4 then 8 else 11);
          bias = (2::nat) ^ (w - 1) - 1;
          sign = bits div 2 ^ (p + w);
          e = (bits div 2 ^ p) mod 2 ^ w;
          frac = bits mod 2 ^ p;
          mant = (if e = 0 then frac else 2 ^ p + frac);
          ex = (if e = 0 then 1 else e)
      in if sign = 1 then False
         else if e = 2 ^ w - 1 then frac = 0
         else if bias + p \<le> ex then n < mant * 2 ^ (ex - (bias + p))
         else n * 2 ^ (bias + p - ex) < mant)"

section \<open>MamboSensors\<close>

text \<open>The last known sensor values, with the defaults of \<^verbatim>\<open>MamboSensors.__init__\<close>.\<close>

record MamboSensors =
  battery :: pyval
  flying_state :: pyval
  unknown_sensors :: "string \<rightharpoonup> pyval"
  gun_id :: pyval
  gun_state :: pyval
  claw_id :: pyval
  claw_state :: pyval
  speed_x :: pyval
  speed_y :: pyval
  speed_z :: pyval
  speed_ts :: pyval
  altitude :: pyval
  altitude_ts :: pyval
  quaternion_w :: pyval
  quaternion_x :: pyval
  quaternion_y :: pyval
  quaternion_z :: pyval
  quaternion_ts :: pyval

definition MamboSensors_init :: MamboSensors where
  "MamboSensors_init =
     \<lparr> battery = PInt 100, flying_state = PStr ''landed'', unknown_sensors = Map.empty,
       gun_id = PInt 0, gun_state = PNone, claw_id = PInt 0, claw_state = PNone,
       speed_x = PInt 0, speed_y = PInt 0, speed_z = PInt 0, speed_ts = PInt 0,
       altitude = PInt 0, altitude_ts = PInt 0,
       quaternion_w = PInt 0, quaternion_x = PInt 0, quaternion_y = PInt 0,
       quaternion_z = PInt 0, quaternion_ts = PInt 0 \<rparr>"

text \<open>
  The first half of \<^verbatim>\<open>MamboSensors.update\<close>: a sensor whose \<^verbatim>\<open>(name, "enum")\<close> key is
  in the cache has its value translated through the list of member names.
  \<^verbatim>\<open>
  if (value > len(sensor_enum[(name, "enum")])):
      value = "UNKNOWN_ENUM_VALUE"
  else:
      enum_value = sensor_enum[(name, "enum")][value]
  \<close>
  The comparison is Python 2's: \<^verbatim>\<open>None\<close> is smaller than every number and a string is
  greater than every number. Indexing a list with \<^verbatim>\<open>None\<close> or a float raises
  \<^verbatim>\<open>TypeError\<close>; an integer index \<open>i\<close> is valid for \<open>-len \<le> i < len\<close>, a negative one
  counting from the end, and raises \<^verbatim>\<open>IndexError\<close> otherwise.
\<close>

definition enum_translate :: "string list \<Rightarrow> pyval \<Rightarrow> error + pyval" where
  "enum_translate names v =
     (case v of
        PInt i \<Rightarrow>
          if i > int (length names) then Inr (PStr ''UNKNOWN_ENUM_VALUE'')
          else if 0 \<le> i \<and> i < int (length names) then Inr (PStr (names ! nat i))
          else if i < 0 \<and> - int (length names) \<le> i
            then Inr (PStr (names ! nat (int (length names) + i)))
          else Inl IndexError
      | PNone \<Rightarrow> Inl TypeError
      | PFloat bs \<Rightarrow>
          if float_gt bs (length names) then Inr (PStr ''UNKNOWN_ENUM_VALUE'')
          else Inl TypeError
      | PStr s \<Rightarrow> Inr (PStr ''UNKNOWN_ENUM_VALUE'')
      | PBytes bs \<Rightarrow> Inr (PStr ''UNKNOWN_ENUM_VALUE''))"

text \<open>The second half: the chain of \<^verbatim>\<open>if/elif\<close> on the sensor's name.\<close>

definition store_sensor :: "string \<Rightarrow> pyval \<Rightarrow> MamboSensors \<Rightarrow> MamboSensors" where
  "store_sensor name v s =
     (if name = ''BatteryStateChanged_battery_percent'' then s\<lparr>battery := v\<rparr>
      else if name = ''FlyingStateChanged_state'' then s\<lparr>flying_state := v\<rparr>
      else if name = ''ClawState_id'' then s\<lparr>claw_id := v\<rparr>
      else if name = ''ClawState_state'' then s\<lparr>claw_state := v\<rparr>
      else if name = ''GunState_id'' then s\<lparr>gun_id := v\<rparr>
      else if name = ''GunState_state'' then s\<lparr>gun_state := v\<rparr>
      else if name = ''DroneSpeed_speed_x'' then s\<lparr>speed_x := v\<rparr>
      else if name = ''DroneSpeed_speed_y'' then s\<lparr>speed_y := v\<rparr>
      else if name = ''DroneSpeed_speed_z'' then s\<lparr>speed_z := v\<rparr>
      else if name = ''DroneSpeed_ts'' then s\<lparr>speed_ts := v\<rparr>
      else if name = ''DroneAltitude_altitude'' then s\<lparr>altitude := v\<rparr>
      else if name = ''DroneAltitude_altitude_ts'' then s\<lparr>altitude_ts := v\<rparr>
      else if name = ''DroneQuaternion_q_w'' then s\<lparr>quaternion_w := v\<rparr>
      else if name = ''DroneQuaternion_q_x'' then s\<lparr>quaternion_x := v\<rparr>
      else if name = ''DroneQuaternion_q_y'' then s\<lparr>quaternion_y := v\<rparr>
      else if name = ''DroneQuaternion_q_z'' then s\<lparr>quaternion_z := v\<rparr>
      else if name = ''DroneQuaternion_tz'' then s\<lparr>quaternion_ts := v\<rparr>
      else s\<lparr>unknown_sensors := (unknown_sensors s)(name \<mapsto> v)\<rparr>)"

text \<open>
  \<^verbatim>\<open>MamboSensors.update(name, value, sensor_enum)\<close>. The argument \<open>sensor_enum\<close> is the
  part of the sensor cache with the keys \<^verbatim>\<open>(name, "enum")\<close>, a map from the name to the
  list of member names.
\<close>

definition update :: "string \<Rightarrow> pyval \<Rightarrow> (string \<rightharpoonup> string list) \<Rightarrow> MamboSensors
    \<Rightarrow> error + MamboSensors" where
  "update name v sensor_enum s =
     (case sensor_enum name of
        None \<Rightarrow> Inr (store_sensor name v s)
      | Some names \<Rightarrow>
          (case enum_translate names v of
             Inl e \<Rightarrow> Inl e
           | Inr v' \<Rightarrow> Inr (store_sensor name v' s)))"

section \<open>The command dictionary\<close>

text \<open>
  \<^verbatim>\<open>minidrone.xml\<close> and \<^verbatim>\<open>common.xml\<close> are not part of the sources: the parsed trees
  are parameters of the model. A tree is \<^verbatim>\<open>project{id, myclass[]{id, name, cmd[]{id, name,
  arg[]{name, type, enum[]{name}}}}}\<close>, with the \<^verbatim>\<open>id\<close> attributes already read as integers
  (the code reads them with \<^verbatim>\<open>int(...)\<close>).

  The code walks the tree with \<^verbatim>\<open>untangle\<close>: \<^verbatim>\<open>for x in node.child\<close> raises
  \<^verbatim>\<open>AttributeError\<close> when the node has no such child, and \<^verbatim>\<open>hasattr(node, 'child')\<close>
  is false then.
\<close>

record xml_arg =
  a_name :: string
  a_type :: string
  a_enum :: "string list"

record xml_cmd =
  c_id :: int
  c_name :: string
  c_arg :: "xml_arg list"

record xml_class =
  k_id :: int
  k_name :: string
  k_cmd :: "xml_cmd list"

record xml_project =
  p_id :: int
  p_myclass :: "xml_class list"

subsection \<open>Search by name\<close>

text \<open>
  The two nested loops of \<^verbatim>\<open>_get_command_tuple\<close> over one project:
  \<^verbatim>\<open>
  for child in project.myclass:
      if child['name'] == myclass:
          class_id = int(child['id'])
          for subchild in child.cmd:
              if subchild['name'] == cmd:
                  cmd_id = int(subchild['id'])
                  ... return (project_id, class_id, cmd_id)
  \<close>
  \<open>None\<close> is falling out of the loops.
\<close>

fun search_myclass :: "string \<Rightarrow> string \<Rightarrow> xml_class list \<Rightarrow> error + (int \<times> int) option" where
  "search_myclass myclass cmd [] = Inr None"
| "search_myclass myclass cmd (child # rest) =
     (if k_name child = myclass then
        (if k_cmd child = [] then Inl AttributeError
         else (case find (\<lambda>subchild. c_name subchild = cmd) (k_cmd child) of
                 Some subchild \<Rightarrow> Inr (Some (k_id child, c_id subchild))
               | None \<Rightarrow> search_myclass myclass cmd rest))
      else search_myclass myclass cmd rest)"

definition search_project :: "xml_project \<Rightarrow> string \<Rightarrow> string
    \<Rightarrow> error + (int \<times> int \<times> int) option" where
  "search_project p myclass cmd =
     (if p_myclass p = [] then Inl AttributeError
      else (case search_myclass myclass cmd (p_myclass p) of
              Inl e \<Rightarrow> Inl e
            | Inr None \<Rightarrow> Inr None
            | Inr (Some (class_id, cmd_id)) \<Rightarrow> Inr (Some (p_id p, class_id, cmd_id))))"

subsection \<open>Search by name with an enum member\<close>

text \<open>\<^verbatim>\<open>for e_idx, echild in enumerate(arg_child.enum): if echild['name'] == enum_name\<close>\<close>

fun enum_index :: "string \<Rightarrow> string list \<Rightarrow> nat \<Rightarrow> nat option" where
  "enum_index enum_name [] e_idx = None"
| "enum_index enum_name (echild # rest) e_idx =
     (if echild = enum_name then Some e_idx else enum_index enum_name rest (Suc e_idx))"

text \<open>\<^verbatim>\<open>for arg_child in subchild.arg: if arg_child['type'] == "enum": ...\<close>\<close>

fun search_arg_enum :: "string \<Rightarrow> xml_arg list \<Rightarrow> error + nat option" where
  "search_arg_enum enum_name [] = Inr None"
| "search_arg_enum enum_name (arg_child # rest) =
     (if a_type arg_child = ''enum'' then
        (if a_enum arg_child = [] then Inl AttributeError
         else (case enum_index enum_name (a_enum arg_child) 0 of
                 Some e_idx \<Rightarrow> Inr (Some e_idx)
               | None \<Rightarrow> search_arg_enum enum_name rest))
      else search_arg_enum enum_name rest)"

text \<open>\<^verbatim>\<open>for subchild in child.cmd: if subchild['name'] == cmd: ...\<close>\<close>

fun search_cmd_enum :: "string \<Rightarrow> string \<Rightarrow> xml_cmd list \<Rightarrow> error + (int \<times> nat) option" where
  "search_cmd_enum cmd enum_name [] = Inr None"
| "search_cmd_enum cmd enum_name (subchild # rest) =
     (if c_name subchild = cmd then
        (if c_arg subchild = [] then Inl AttributeError
         else (case search_arg_enum enum_name (c_arg subchild) of
                 Inl e \<Rightarrow> Inl e
               | Inr (Some e_idx) \<Rightarrow> Inr (Some (c_id subchild, e_idx))
               | Inr None \<Rightarrow> search_cmd_enum cmd enum_name rest))
      else search_cmd_enum cmd enum_name rest)"

text \<open>\<^verbatim>\<open>for child in project.myclass: if child['name'] == myclass: ...\<close>\<close>

fun search_myclass_enum :: "string \<Rightarrow> string \<Rightarrow> string \<Rightarrow> xml_class list
    \<Rightarrow> error + (int \<times> int \<times> nat) option" where
  "search_myclass_enum myclass cmd enum_name [] = Inr None"
| "search_myclass_enum myclass cmd enum_name (child # rest) =
     (if k_name child = myclass then
        (if k_cmd child = [] then Inl AttributeError
         else (case search_cmd_enum cmd enum_name (k_cmd child) of
                 Inl e \<Rightarrow> Inl e
               | Inr (Some (cmd_id, e_idx)) \<Rightarrow> Inr (Some (k_id child, cmd_id, e_idx))
               | Inr None \<Rightarrow> search_myclass_enum myclass cmd enum_name rest))
      else search_myclass_enum myclass cmd enum_name rest)"

definition search_project_enum :: "xml_project \<Rightarrow> string \<Rightarrow> string \<Rightarrow> string
    \<Rightarrow> error + ((int \<times> int \<times> int) \<times> nat) option" where
  "search_project_enum p myclass cmd enum_name =
     (if p_myclass p = [] then Inl AttributeError
      else (case search_myclass_enum myclass cmd enum_name (p_myclass p) of
              Inl e \<Rightarrow> Inl e
            | Inr None \<Rightarrow> Inr None
            | Inr (Some (class_id, cmd_id, e_idx)) \<Rightarrow>
                Inr (Some ((p_id p, class_id, cmd_id), e_idx))))"

subsection \<open>Search by identifiers\<close>

text \<open>
  \<^verbatim>\<open>
  for c in project.myclass:
      if int(c['id']) == myclass_id:
          for cmd_child in c.cmd:
              if int(cmd_child['id']) == cmd_id:
  \<close>
\<close>

fun search_sensor_myclass :: "int \<Rightarrow> int \<Rightarrow> xml_class list \<Rightarrow> error + xml_cmd option" where
  "search_sensor_myclass myclass_id cmd_id [] = Inr None"
| "search_sensor_myclass myclass_id cmd_id (c # rest) =
     (if k_id c = myclass_id then
        (if k_cmd c = [] then Inl AttributeError
         else (case find (\<lambda>cmd_child. c_id cmd_child = cmd_id) (k_cmd c) of
                 Some cmd_child \<Rightarrow> Inr (Some cmd_child)
               | None \<Rightarrow> search_sensor_myclass myclass_id cmd_id rest))
      else search_sensor_myclass myclass_id cmd_id rest)"

definition search_sensor_project :: "xml_project \<Rightarrow> int \<Rightarrow> int \<Rightarrow> int
    \<Rightarrow> error + xml_cmd option" where
  "search_sensor_project p project_id myclass_id cmd_id =
     (if project_id = p_id p then
        (if p_myclass p = [] then Inl AttributeError
         else search_sensor_myclass myclass_id cmd_id (p_myclass p))
      else Inr None)"

text \<open>
  The loop over the arguments of the command found: it builds the lists of sensor names
  and data sizes and stores the member names of every enum argument in the cache under
  \<^verbatim>\<open>(sensor_name, "enum")\<close>. What it stored before an exception stays stored.
\<close>

fun sensor_args :: "string \<Rightarrow> xml_arg list \<Rightarrow> (string \<rightharpoonup> string list)
    \<Rightarrow> (error + string list \<times> string option list) \<times> (string \<rightharpoonup> string list)" where
  "sensor_args cmd_name [] enums = (Inr ([], []), enums)"
| "sensor_args cmd_name (arg_child # rest) enums =
     (let sensor_name = cmd_name @ ''_'' @ a_name arg_child;
          data_size = a_type arg_child
      in if data_size = ''enum'' \<and> a_enum arg_child = [] then (Inl AttributeError, enums)
         else
           (case sensor_args cmd_name rest
                   (if data_size = ''enum'' then enums(sensor_name \<mapsto> a_enum arg_child)
                    else enums) of
              (Inl e, enums') \<Rightarrow> (Inl e, enums')
            | (Inr (sensor_names, data_sizes), enums') \<Rightarrow>
                (Inr (sensor_name # sensor_names, Some data_size # data_sizes), enums')))"

text \<open>
  \<^verbatim>\<open>if (hasattr(cmd_child, 'arg')): ... else:\<close> a command without arguments is a pure
  notification, with the command's name and the size \<^verbatim>\<open>None\<close>.
\<close>

definition sensor_fields :: "xml_cmd \<Rightarrow> (string \<rightharpoonup> string list)
    \<Rightarrow> (error + string list \<times> string option list) \<times> (string \<rightharpoonup> string list)" where
  "sensor_fields cmd_child enums =
     (if c_arg cmd_child \<noteq> [] then sensor_args (c_name cmd_child) (c_arg cmd_child) enums
      else (Inr ([c_name cmd_child], [None]), enums))"

section \<open>The client's state and the BLE link\<close>

text \<open>
  A GATT characteristic of \<^verbatim>\<open>bluepy\<close>, as far as the code reads it: \<^verbatim>\<open>c.uuid\<close>,
  \<^verbatim>\<open>c.handle\<close> and \<^verbatim>\<open>c.getHandle()\<close>. A service is its uuid and the list that
  \<^verbatim>\<open>s.getCharacteristics()\<close> returns.
\<close>

record characteristic =
  uuid :: string
  handle :: nat
  getHandle :: nat

record service =
  s_uuid :: string
  getCharacteristics :: "characteristic list"

text \<open>
  The two calls with which the code writes to the link: \<^verbatim>\<open>c.write(packet)\<close> and
  \<^verbatim>\<open>drone.writeCharacteristic(handle, value)\<close>.
\<close>

datatype ble_write =
    Characteristic_write characteristic "byte list"
  | writeCharacteristic nat "byte list"

text \<open>
  What one call of \<^verbatim>\<open>drone.waitForNotifications\<close> does: it hands one notification to the
  delegate, or times out, or raises.
\<close>

datatype wait_outcome =
    Notification nat "byte list"
  | Timeout
  | Wait_raises

text \<open>
  The BLE link is the environment. Its behaviour is a parameter of the model:
  whether the \<open>n\<close>-th call of \<^verbatim>\<open>drone.connect\<close> raises \<^verbatim>\<open>BTLEException\<close>, whether the
  \<open>n\<close>-th write does, what the \<open>n\<close>-th call of \<^verbatim>\<open>drone.getServices\<close> returns, and, for
  the \<open>n\<close>-th loop that runs until a time is up (\<^verbatim>\<open>smart_sleep\<close>, \<^verbatim>\<open>fly_direct\<close>), the
  outcomes of the calls of \<^verbatim>\<open>waitForNotifications\<close> it makes before the clock ends it.
  The clock itself is not modelled: a timed loop runs once for each of these outcomes.
\<close>

record transport =
  connect_raises :: "nat \<Rightarrow> bool"
  write_raises :: "nat \<Rightarrow> bool"
  getServices :: "nat \<Rightarrow> service list"
  waits :: "nat \<Rightarrow> wait_outcome list"

text \<open>
  The fields of \<^verbatim>\<open>Mambo\<close>. The dictionary \<^verbatim>\<open>command_tuple_cache\<close> has keys of two shapes,
  \<^verbatim>\<open>(myclass, cmd)\<close> and \<^verbatim>\<open>(myclass, cmd, enum_name)\<close>, and \<^verbatim>\<open>sensor_tuple_cache\<close> has
  the 4-tuples of identifiers and the pairs \<^verbatim>\<open>(sensor_name, "enum")\<close>: each is a pair of
  maps here, one for each shape of key. In \<open>sensor_tuple_cache\<close> the value \<open>None\<close> is the
  cached \<^verbatim>\<open>(None, None)\<close>. The dictionary \<^verbatim>\<open>handshake_characteristics\<close> is iterated over,
  so it is a list of pairs in the order of insertion. \<open>delegate\<close> is the \<open>handle_map\<close> of
  the \<^verbatim>\<open>MamboDelegate\<close> set with \<^verbatim>\<open>setDelegate\<close>, if any. The fields \<open>drone_\<dots>\<close> are the
  state of the link: how many calls of each kind were made, and the writes that returned.
\<close>

record Mambo =
  send_characteristics :: "string \<rightharpoonup> characteristic"
  receive_characteristics :: "string \<rightharpoonup> characteristic"
  handshake_characteristics :: "(string \<times> characteristic) list"
  ftp_characteristics :: "string \<rightharpoonup> characteristic"
  characteristic_send_counter :: "string \<rightharpoonup> int"
  minidrone_commands :: xml_project
  common_commands :: xml_project
  command_received :: "string \<rightharpoonup> bool"
  sensors :: MamboSensors
  command_tuple_cache :: "string \<times> string \<rightharpoonup> int \<times> int \<times> int"
  command_tuple_cache_enum :: "string \<times> string \<times> string \<rightharpoonup> (int \<times> int \<times> int) \<times> nat"
  sensor_tuple_cache :: "int \<times> int \<times> int \<times> int \<rightharpoonup> (string list \<times> string option list) option"
  sensor_tuple_cache_enum :: "string \<rightharpoonup> string list"
  delegate :: "(nat \<rightharpoonup> string) option"
  drone_connects :: nat
  drone_writes :: nat
  drone_scans :: nat
  drone_sleeps :: nat
  drone_written :: "ble_write list"

text \<open>\<^verbatim>\<open>Mambo.__init__\<close>, given the two parsed dictionaries.\<close>

definition Mambo_init :: "xml_project \<Rightarrow> xml_project \<Rightarrow> Mambo" where
  "Mambo_init minidrone common =
     \<lparr> send_characteristics = Map.empty,
       receive_characteristics = Map.empty,
       handshake_characteristics = [],
       ftp_characteristics = Map.empty,
       characteristic_send_counter =
         [''SEND_NO_ACK'' \<mapsto> 0, ''SEND_WITH_ACK'' \<mapsto> 0, ''SEND_HIGH_PRIORITY'' \<mapsto> 0,
          ''ACK_COMMAND'' \<mapsto> 0, ''RECEIVE_WITH_ACK'' \<mapsto> 0],
       minidrone_commands = minidrone,
       common_commands = common,
       command_received =
         [''SEND_WITH_ACK'' \<mapsto> False, ''SEND_HIGH_PRIORITY'' \<mapsto> False, ''ACK_COMMAND'' \<mapsto> False],
       sensors = MamboSensors_init,
       command_tuple_cache = Map.empty,
       command_tuple_cache_enum = Map.empty,
       sensor_tuple_cache = Map.empty,
       sensor_tuple_cache_enum = Map.empty,
       delegate = None,
       drone_connects = 0, drone_writes = 0, drone_scans = 0, drone_sleeps = 0,
       drone_written = [] \<rparr>"

text \<open>The tables that \<^verbatim>\<open>__init__\<close> fills and nothing changes afterwards.\<close>

definition service_uuids :: "string \<rightharpoonup> string" where
  "service_uuids = map_of
     [(''fa00'', ''ARCOMMAND_SENDING_SERVICE''),
      (''fb00'', ''ARCOMMAND_RECEIVING_SERVICE''),
      (''fc00'', ''PERFORMANCE_COUNTER_SERVICE''),
      (''fd21'', ''NORMAL_BLE_FTP_SERVICE''),
      (''fd51'', ''UPDATE_BLE_FTP''),
      (''fe00'', ''UPDATE_RFCOMM_SERVICE''),
      (''1800'', ''Device Info''),
      (''1801'', ''unknown'')]"

definition characteristic_send_uuids :: "(string \<times> string) list" where
  "characteristic_send_uuids =
     [(''0a'', ''SEND_NO_ACK''), (''0b'', ''SEND_WITH_ACK''),
      (''0c'', ''SEND_HIGH_PRIORITY''), (''1e'', ''ACK_COMMAND'')]"

definition characteristic_receive_uuids :: "(string \<times> string) list" where
  "characteristic_receive_uuids =
     [(''0e'', ''ACK_DRONE_DATA''), (''0f'', ''NO_ACK_DRONE_DATA''),
      (''1b'', ''ACK_COMMAND_SENT''), (''1c'', ''ACK_HIGH_PRIORITY'')]"

definition characteristic_ftp_uuids :: "(string \<times> string) list" where
  "characteristic_ftp_uuids =
     [(''22'', ''NORMAL_FTP_TRANSFERRING''), (''23'', ''NORMAL_FTP_GETTING''),
      (''24'', ''NORMAL_FTP_HANDLING''), (''52'', ''UPDATE_FTP_TRANSFERRING''),
      (''53'', ''UPDATE_FTP_GETTING''), (''54'', ''UPDATE_FTP_HANDLING'')]"

text \<open>The entries of \<^verbatim>\<open>data_types\<close>.\<close>

definition data_types_ACK :: int where
  "data_types_ACK = 1"

definition data_types_DATA_NO_ACK :: int where
  "data_types_DATA_NO_ACK = 2"

definition data_types_DATA_WITH_ACK :: int where
  "data_types_DATA_WITH_ACK = 4"

text \<open>\<^verbatim>\<open>self.max_packet_retries = 3\<close>, set in \<^verbatim>\<open>__init__\<close> and only read afterwards.\<close>

definition max_packet_retries :: int where
  "max_packet_retries = 3"

subsection \<open>Calls into the link\<close>

definition drone_connect :: "transport \<Rightarrow> Mambo \<Rightarrow> (error + unit) \<times> Mambo" where
  "drone_connect t m =
     (let m' = m\<lparr>drone_connects := Suc (drone_connects m)\<rparr>
      in if connect_raises t (drone_connects m) then (Inl BTLEException, m')
         else (Inr (), m'))"

text \<open>A write that raises leaves no trace in \<open>drone_written\<close>.\<close>

definition drone_write :: "transport \<Rightarrow> ble_write \<Rightarrow> Mambo \<Rightarrow> (error + unit) \<times> Mambo" where
  "drone_write t w m =
     (let m' = m\<lparr>drone_writes := Suc (drone_writes m)\<rparr>
      in if write_raises t (drone_writes m) then (Inl BTLEException, m')
         else (Inr (), m'\<lparr>drone_written := drone_written m @ [w]\<rparr>))"

subsection \<open>Handshake and reconnection\<close>

text \<open>
  \<^verbatim>\<open>_perform_handshake\<close>: for every handshake characteristic,
  \<^verbatim>\<open>self.drone.writeCharacteristic(c.handle + 2, struct.pack("<BB", 1, 0))\<close>.
\<close>

fun handshake_loop :: "transport \<Rightarrow> characteristic list \<Rightarrow> Mambo \<Rightarrow> (error + unit) \<times> Mambo" where
  "handshake_loop t [] m = (Inr (), m)"
| "handshake_loop t (c # cs) m =
     (case drone_write t (writeCharacteristic (handle c + 2) [1, 0]) m of
        (Inl e, m') \<Rightarrow> (Inl e, m')
      | (Inr u, m') \<Rightarrow> handshake_loop t cs m')"

definition perform_handshake :: "transport \<Rightarrow> Mambo \<Rightarrow> (error + unit) \<times> Mambo" where
  "perform_handshake t m = handshake_loop t (map snd (handshake_characteristics m)) m"

text \<open>
  The loop of \<^verbatim>\<open>_reconnect\<close>:
  \<^verbatim>\<open>
  while (try_num < num_retries and not success):
      try:
          self.drone.connect(self.address, "random")
          success = True
      except BTLEException:
          try_num += 1
  \<close>
  It returns \<open>success\<close>.
\<close>

function reconnect_loop :: "transport \<Rightarrow> int \<Rightarrow> int \<Rightarrow> Mambo \<Rightarrow> (error + bool) \<times> Mambo" where
  "reconnect_loop t try_num num_retries m =
     (if try_num < num_retries then
        (case drone_connect t m of
           (Inr u, m') \<Rightarrow> (Inr True, m')
         | (Inl e, m') \<Rightarrow>
             if e = BTLEException then reconnect_loop t (try_num + 1) num_retries m'
             else (Inl e, m'))
      else (Inr False, m))"
  by pat_completeness auto
termination
  by (relation "measure (\<lambda>(t, try_num, num_retries, m). nat (num_retries - try_num))") auto

text \<open>\<^verbatim>\<open>_reconnect(num_retries)\<close>: \<open>try_num\<close> starts at 1; the handshake follows a success.\<close>

definition reconnect :: "transport \<Rightarrow> int \<Rightarrow> Mambo \<Rightarrow> (error + bool) \<times> Mambo" where
  "reconnect t num_retries m =
     (case reconnect_loop t 1 num_retries m of
        (Inl e, m') \<Rightarrow> (Inl e, m')
      | (Inr success, m') \<Rightarrow>
          if success then
            (case perform_handshake t m' of
               (Inl e, m'') \<Rightarrow> (Inl e, m'')
             | (Inr u, m'') \<Rightarrow> (Inr success, m''))
          else (Inr success, m'))"

text \<open>
  \<^verbatim>\<open>_safe_ble_write\<close>: the loop ends with the first write that does not raise, and it
  reconnects after every \<^verbatim>\<open>BTLEException\<close>. Nothing bounds it: \<open>None\<close> is a loop that
  never ends. An exception out of \<^verbatim>\<open>_reconnect\<close> leaves the loop.
  \<^verbatim>\<open>
  while (not success):
      try:
          characteristic.write(packet)
          success = True
      except BTLEException:
          self._reconnect(3)
  \<close>
\<close>

partial_function (option) safe_ble_write ::
    "transport \<Rightarrow> characteristic \<Rightarrow> byte list \<Rightarrow> Mambo \<Rightarrow> ((error + unit) \<times> Mambo) option" where
  "safe_ble_write t c packet m =
     (case drone_write t (Characteristic_write c packet) m of
        (Inr u, m') \<Rightarrow> Some (Inr (), m')
      | (Inl e, m') \<Rightarrow>
          if e = BTLEException then
            (case reconnect t 3 m' of
               (Inl e', m'') \<Rightarrow> Some (Inl e', m'')
             | (Inr success, m'') \<Rightarrow> safe_ble_write t c packet m'')
          else Some (Inl e, m'))"

declare safe_ble_write.simps [code]

section \<open>Channel counters and the ack of received data\<close>

text \<open>
  The statement that opens every send:
  \<^verbatim>\<open>self.characteristic_send_counter[ch] = (self.characteristic_send_counter[ch] + 1) % 256\<close>.
  \<open>next_counter\<close> is its right-hand side. The later reads of the counter, in the call of
  \<^verbatim>\<open>struct.pack\<close>, see the value that \<open>increment_counter\<close> returns.
\<close>

definition next_counter :: "int \<Rightarrow> int" where
  "next_counter c = (c + 1) mod 256"

definition increment_counter :: "string \<Rightarrow> Mambo \<Rightarrow> (error + int) \<times> Mambo" where
  "increment_counter channel m =
     (case characteristic_send_counter m channel of
        None \<Rightarrow> (Inl KeyError, m)
      | Some c \<Rightarrow>
          (Inr (next_counter c),
           m\<lparr>characteristic_send_counter :=
                (characteristic_send_counter m)(channel \<mapsto> next_counter c)\<rparr>))"

text \<open>
  \<^verbatim>\<open>_ack_packet\<close>: the frame
  \<^verbatim>\<open>struct.pack("<BBB", self.data_types['ACK'], self.characteristic_send_counter['ACK_COMMAND'], packet_id)\<close>,
  then its write on the characteristic \<^verbatim>\<open>ACK_COMMAND\<close>.
\<close>

definition ack_packet_frame :: "int \<Rightarrow> Mambo \<Rightarrow> (error + byte list) \<times> Mambo" where
  "ack_packet_frame packet_id m =
     (case increment_counter ''ACK_COMMAND'' m of
        (Inl e, m') \<Rightarrow> (Inl e, m')
      | (Inr counter, m') \<Rightarrow>
          (pack [pack_B data_types_ACK, pack_B counter, pack_B packet_id], m'))"

definition ack_packet :: "transport \<Rightarrow> int \<Rightarrow> Mambo \<Rightarrow> ((error + unit) \<times> Mambo) option" where
  "ack_packet t packet_id m =
     (case ack_packet_frame packet_id m of
        (Inl e, m') \<Rightarrow> Some (Inl e, m')
      | (Inr packet, m') \<Rightarrow>
          (case send_characteristics m' ''ACK_COMMAND'' of
             None \<Rightarrow> Some (Inl KeyError, m')
           | Some c \<Rightarrow> safe_ble_write t c packet m'))"

section \<open>Resolving names and identifiers, with the caches\<close>

text \<open>
  \<^verbatim>\<open>_get_command_tuple(myclass, cmd)\<close>: the cache first, then \<^verbatim>\<open>minidrone.xml\<close>, then
  \<^verbatim>\<open>common.xml\<close>. A result found is stored in the cache. When neither dictionary has the
  name the function ends without a \<^verbatim>\<open>return\<close>: the result is \<^verbatim>\<open>None\<close> and nothing is
  stored.
\<close>

definition get_command_tuple :: "string \<Rightarrow> string \<Rightarrow> Mambo
    \<Rightarrow> (error + (int \<times> int \<times> int) option) \<times> Mambo" where
  "get_command_tuple myclass cmd m =
     (case command_tuple_cache m (myclass, cmd) of
        Some r \<Rightarrow> (Inr (Some r), m)
      | None \<Rightarrow>
          (case search_project (minidrone_commands m) myclass cmd of
             Inl e \<Rightarrow> (Inl e, m)
           | Inr (Some r) \<Rightarrow>
               (Inr (Some r),
                m\<lparr>command_tuple_cache := (command_tuple_cache m)((myclass, cmd) \<mapsto> r)\<rparr>)
           | Inr None \<Rightarrow>
               (case search_project (common_commands m) myclass cmd of
                  Inl e \<Rightarrow> (Inl e, m)
                | Inr (Some r) \<Rightarrow>
                    (Inr (Some r),
                     m\<lparr>command_tuple_cache := (command_tuple_cache m)((myclass, cmd) \<mapsto> r)\<rparr>)
                | Inr None \<Rightarrow> (Inr None, m))))"

text \<open>\<^verbatim>\<open>_get_command_tuple_with_enum(myclass, cmd, enum_name)\<close>, of the same shape.\<close>

definition get_command_tuple_with_enum :: "string \<Rightarrow> string \<Rightarrow> string \<Rightarrow> Mambo
    \<Rightarrow> (error + ((int \<times> int \<times> int) \<times> nat) option) \<times> Mambo" where
  "get_command_tuple_with_enum myclass cmd enum_name m =
     (case command_tuple_cache_enum m (myclass, cmd, enum_name) of
        Some r \<Rightarrow> (Inr (Some r), m)
      | None \<Rightarrow>
          (case search_project_enum (minidrone_commands m) myclass cmd enum_name of
             Inl e \<Rightarrow> (Inl e, m)
           | Inr (Some r) \<Rightarrow>
               (Inr (Some r),
                m\<lparr>command_tuple_cache_enum :=
                     (command_tuple_cache_enum m)((myclass, cmd, enum_name) \<mapsto> r)\<rparr>)
           | Inr None \<Rightarrow>
               (case search_project_enum (common_commands m) myclass cmd enum_name of
                  Inl e \<Rightarrow> (Inl e, m)
                | Inr (Some r) \<Rightarrow>
                    (Inr (Some r),
                     m\<lparr>command_tuple_cache_enum :=
                          (command_tuple_cache_enum m)((myclass, cmd, enum_name) \<mapsto> r)\<rparr>)
                | Inr None \<Rightarrow> (Inr None, m))))"

text \<open>
  The end of a successful search in \<^verbatim>\<open>_parse_sensor_tuple\<close>: the fields of the command are
  built (adding the enum lists to the cache) and stored under the 4-tuple.
\<close>

definition cache_sensor_fields :: "int \<times> int \<times> int \<times> int \<Rightarrow> xml_cmd \<Rightarrow> Mambo
    \<Rightarrow> (error + (string list \<times> string option list) option) \<times> Mambo" where
  "cache_sensor_fields key cmd_child m =
     (case sensor_fields cmd_child (sensor_tuple_cache_enum m) of
        (Inl e, enums) \<Rightarrow> (Inl e, m\<lparr>sensor_tuple_cache_enum := enums\<rparr>)
      | (Inr r, enums) \<Rightarrow>
          (Inr (Some r),
           m\<lparr>sensor_tuple_cache_enum := enums,
             sensor_tuple_cache := (sensor_tuple_cache m)(key \<mapsto> Some r)\<rparr>))"

text \<open>
  \<^verbatim>\<open>_parse_sensor_tuple(sensor_tuple)\<close>: the cache first, then \<^verbatim>\<open>minidrone.xml\<close>, then
  \<^verbatim>\<open>common.xml\<close>; a tuple in neither is stored as \<^verbatim>\<open>(None, None)\<close>.
\<close>

definition parse_sensor_tuple :: "int \<times> int \<times> int \<times> int \<times> int \<times> int \<Rightarrow> Mambo
    \<Rightarrow> (error + (string list \<times> string option list) option) \<times> Mambo" where
  "parse_sensor_tuple sensor_tuple m =
     (case sensor_tuple of (ack_id, packet_id, project_id, myclass_id, cmd_id, extra_id) \<Rightarrow>
        (case sensor_tuple_cache m (project_id, myclass_id, cmd_id, extra_id) of
           Some r \<Rightarrow> (Inr r, m)
         | None \<Rightarrow>
             (case search_sensor_project (minidrone_commands m) project_id myclass_id cmd_id of
                Inl e \<Rightarrow> (Inl e, m)
              | Inr (Some cmd_child) \<Rightarrow>
                  cache_sensor_fields (project_id, myclass_id, cmd_id, extra_id) cmd_child m
              | Inr None \<Rightarrow>
                  (case search_sensor_project (common_commands m) project_id myclass_id cmd_id of
                     Inl e \<Rightarrow> (Inl e, m)
                   | Inr (Some cmd_child) \<Rightarrow>
                       cache_sensor_fields (project_id, myclass_id, cmd_id, extra_id) cmd_child m
                   | Inr None \<Rightarrow>
                       (Inr None,
                        m\<lparr>sensor_tuple_cache :=
                             (sensor_tuple_cache m)
                               ((project_id, myclass_id, cmd_id, extra_id) \<mapsto> None)\<rparr>)))))"

section \<open>Decoding telemetry\<close>

text \<open>
  The chain of \<^verbatim>\<open>if/elif\<close> on \<open>data_size\<close> in \<^verbatim>\<open>_update_sensors\<close>: every branch unpacks at
  \<^verbatim>\<open>offset=6\<close>. The size \<^verbatim>\<open>None\<close> of a pure notification, like any size not listed, gives
  the value \<^verbatim>\<open>None\<close>.
\<close>

definition unpack_at_6 :: "nat \<Rightarrow> (byte list \<Rightarrow> pyval) \<Rightarrow> byte list \<Rightarrow> error + pyval" where
  "unpack_at_6 n conv data =
     (case unpack_from n data 6 of Inl e \<Rightarrow> Inl e | Inr bs \<Rightarrow> Inr (conv bs))"

definition decode_sensor :: "string option \<Rightarrow> byte list \<Rightarrow> error + pyval" where
  "decode_sensor data_size data =
     (if data_size = Some ''u8'' \<or> data_size = Some ''enum''
        then unpack_at_6 1 (\<lambda>bs. PInt (le_unsigned bs)) data
      else if data_size = Some ''i8'' then unpack_at_6 1 (\<lambda>bs. PInt (le_signed bs)) data
      else if data_size = Some ''u16'' then unpack_at_6 2 (\<lambda>bs. PInt (le_unsigned bs)) data
      else if data_size = Some ''i16'' then unpack_at_6 2 (\<lambda>bs. PInt (le_signed bs)) data
      else if data_size = Some ''u32'' then unpack_at_6 4 (\<lambda>bs. PInt (le_unsigned bs)) data
      else if data_size = Some ''i32'' then unpack_at_6 4 (\<lambda>bs. PInt (le_signed bs)) data
      else if data_size = Some ''u64'' then unpack_at_6 8 (\<lambda>bs. PInt (le_unsigned bs)) data
      else if data_size = Some ''i64'' then unpack_at_6 8 (\<lambda>bs. PInt (le_signed bs)) data
      else if data_size = Some ''float'' then unpack_at_6 4 PFloat data
      else if data_size = Some ''double'' then unpack_at_6 8 PFloat data
      else if data_size = Some ''string'' then unpack_at_6 1 PBytes data
      else Inr PNone)"

text \<open>
  The loop \<^verbatim>\<open>for idx, name in enumerate(names)\<close>, with \<^verbatim>\<open>data_sizes[idx]\<close> read at each
  turn: every declared field is decoded and stored with \<^verbatim>\<open>self.sensors.update\<close>.
\<close>

fun update_fields :: "string list \<Rightarrow> string option list \<Rightarrow> byte list \<Rightarrow> Mambo
    \<Rightarrow> (error + unit) \<times> Mambo" where
  "update_fields [] data_sizes data m = (Inr (), m)"
| "update_fields (name # names) [] data m = (Inl IndexError, m)"
| "update_fields (name # names) (data_size # data_sizes) data m =
     (case decode_sensor data_size data of
        Inl e \<Rightarrow> (Inl e, m)
      | Inr sensor_data \<Rightarrow>
          (case update name sensor_data (sensor_tuple_cache_enum m) (sensors m) of
             Inl e \<Rightarrow> (Inl e, m)
           | Inr s \<Rightarrow> update_fields names data_sizes data (m\<lparr>sensors := s\<rparr>)))"

text \<open>
  \<^verbatim>\<open>header_tuple = struct.unpack_from("<BBBBBB", data)\<close>, six unsigned bytes from offset 0.
\<close>

definition unpack_header :: "byte list \<Rightarrow> error + int \<times> int \<times> int \<times> int \<times> int \<times> int" where
  "unpack_header data =
     (case unpack_from 6 data 0 of
        Inl e \<Rightarrow> Inl e
      | Inr bs \<Rightarrow>
          Inr (uint (bs ! 0), uint (bs ! 1), uint (bs ! 2), uint (bs ! 3),
               uint (bs ! 4), uint (bs ! 5)))"

text \<open>
  \<^verbatim>\<open>_update_sensors(data, ack)\<close>. Nothing in it catches an exception. The ack of the
  packet, \<^verbatim>\<open>self._ack_packet(header_tuple[1])\<close>, comes last.
\<close>

definition update_sensors :: "transport \<Rightarrow> byte list \<Rightarrow> bool \<Rightarrow> Mambo
    \<Rightarrow> ((error + unit) \<times> Mambo) option" where
  "update_sensors t data ack m =
     (case unpack_header data of
        Inl e \<Rightarrow> Some (Inl e, m)
      | Inr header_tuple \<Rightarrow>
          (case parse_sensor_tuple header_tuple m of
             (Inl e, m1) \<Rightarrow> Some (Inl e, m1)
           | (Inr parsed, m1) \<Rightarrow>
               (case (case parsed of
                        None \<Rightarrow> (Inr (), m1)
                      | Some (names, data_sizes) \<Rightarrow> update_fields names data_sizes data m1) of
                  (Inl e, m2) \<Rightarrow> Some (Inl e, m2)
                | (Inr u, m2) \<Rightarrow>
                    if ack then ack_packet t (fst (snd header_tuple)) m2
                    else Some (Inr (), m2))))"

section \<open>Notifications\<close>

text \<open>\<^verbatim>\<open>_set_command_received(channel, val)\<close>\<close>

definition set_command_received :: "string \<Rightarrow> bool \<Rightarrow> Mambo \<Rightarrow> Mambo" where
  "set_command_received channel val m =
     m\<lparr>command_received := (command_received m)(channel \<mapsto> val)\<rparr>"

text \<open>
  \<^verbatim>\<open>MamboDelegate.handleNotification(cHandle, data)\<close>. The channel is
  \<^verbatim>\<open>self.mambo.characteristic_receive_uuids[self.handle_map[cHandle]]\<close>, two lookups that
  raise \<^verbatim>\<open>KeyError\<close> on a missing key. The last branch calls \<^verbatim>\<open>_debug_print\<close> with one
  argument instead of two, a \<^verbatim>\<open>TypeError\<close>.
\<close>

definition handleNotification :: "transport \<Rightarrow> (nat \<rightharpoonup> string) \<Rightarrow> nat \<Rightarrow> byte list \<Rightarrow> Mambo
    \<Rightarrow> ((error + unit) \<times> Mambo) option" where
  "handleNotification t handle_map cHandle data m =
     (case handle_map cHandle of
        None \<Rightarrow> Some (Inl KeyError, m)
      | Some hex_str \<Rightarrow>
          (case map_of characteristic_receive_uuids hex_str of
             None \<Rightarrow> Some (Inl KeyError, m)
           | Some channel \<Rightarrow>
               if channel = ''ACK_DRONE_DATA'' then update_sensors t data True m
               else if channel = ''NO_ACK_DRONE_DATA'' then update_sensors t data False m
               else if channel = ''ACK_COMMAND_SENT''
                 then Some (Inr (), set_command_received ''SEND_WITH_ACK'' True m)
               else if channel = ''ACK_HIGH_PRIORITY''
                 then Some (Inr (), set_command_received ''SEND_HIGH_PRIORITY'' True m)
               else Some (Inl TypeError, m)))"

text \<open>
  One call of \<^verbatim>\<open>self.drone.waitForNotifications\<close>: a notification goes to the delegate, and
  what the delegate raises comes out of the call. Before \<^verbatim>\<open>setDelegate\<close> the default
  delegate of \<^verbatim>\<open>bluepy\<close> ignores it.
\<close>

definition waitForNotifications :: "transport \<Rightarrow> wait_outcome \<Rightarrow> Mambo
    \<Rightarrow> ((error + unit) \<times> Mambo) option" where
  "waitForNotifications t w m =
     (case w of
        Notification cHandle data \<Rightarrow>
          (case delegate m of
             None \<Rightarrow> Some (Inr (), m)
           | Some handle_map \<Rightarrow> handleNotification t handle_map cHandle data m)
      | Timeout \<Rightarrow> Some (Inr (), m)
      | Wait_raises \<Rightarrow> Some (Inl BTLEException, m))"

text \<open>
  \<^verbatim>\<open>smart_sleep\<close>: until the time is up, wait for a notification; the bare \<^verbatim>\<open>except:\<close>
  catches whatever the call raises and reconnects.
  \<^verbatim>\<open>
  while (time.time() - start_time < timeout):
      try:
          notify = self.drone.waitForNotifications(0.1)
      except:
          self._reconnect(3)
  \<close>
\<close>

fun sleep_loop :: "transport \<Rightarrow> wait_outcome list \<Rightarrow> Mambo \<Rightarrow> ((error + unit) \<times> Mambo) option" where
  "sleep_loop t [] m = Some (Inr (), m)"
| "sleep_loop t (w # ws) m =
     (case waitForNotifications t w m of
        None \<Rightarrow> None
      | Some (Inr u, m') \<Rightarrow> sleep_loop t ws m'
      | Some (Inl e, m') \<Rightarrow>
          (case reconnect t 3 m' of
             (Inl e', m'') \<Rightarrow> Some (Inl e', m'')
           | (Inr success, m'') \<Rightarrow> sleep_loop t ws m''))"

definition smart_sleep :: "transport \<Rightarrow> Mambo \<Rightarrow> ((error + unit) \<times> Mambo) option" where
  "smart_sleep t m =
     sleep_loop t (waits t (drone_sleeps m)) (m\<lparr>drone_sleeps := Suc (drone_sleeps m)\<rparr>)"

section \<open>Sending on the acknowledged channel\<close>

text \<open>
  The loop of \<^verbatim>\<open>_send_command_packet_ack\<close>:
  \<^verbatim>\<open>
  while (try_num < self.max_packet_retries and not self.command_received['SEND_WITH_ACK']):
      self._safe_ble_write(characteristic=self.send_characteristics['SEND_WITH_ACK'], packet=packet)
      try_num += 1
      self.smart_sleep(0.5)
  \<close>
\<close>

function send_loop :: "transport \<Rightarrow> byte list \<Rightarrow> int \<Rightarrow> Mambo \<Rightarrow> ((error + unit) \<times> Mambo) option" where
  "send_loop t packet try_num m =
     (if try_num < max_packet_retries then
        (case command_received m ''SEND_WITH_ACK'' of
           None \<Rightarrow> Some (Inl KeyError, m)
         | Some received \<Rightarrow>
             if received then Some (Inr (), m)
             else
               (case send_characteristics m ''SEND_WITH_ACK'' of
                  None \<Rightarrow> Some (Inl KeyError, m)
                | Some c \<Rightarrow>
                    (case safe_ble_write t c packet m of
                       None \<Rightarrow> None
                     | Some (Inl e, m') \<Rightarrow> Some (Inl e, m')
                     | Some (Inr u, m') \<Rightarrow>
                         (case smart_sleep t m' of
                            None \<Rightarrow> None
                          | Some (Inl e, m'') \<Rightarrow> Some (Inl e, m'')
                          | Some (Inr u', m'') \<Rightarrow> send_loop t packet (try_num + 1) m''))))
      else Some (Inr (), m))"
  by pat_completeness auto
termination
  by (relation "measure (\<lambda>(t, packet, try_num, m). nat (max_packet_retries - try_num))") auto

text \<open>
  \<^verbatim>\<open>_send_command_packet_ack(packet)\<close>: the flag is cleared, the loop runs from
  \<open>try_num = 0\<close>, and the result is \<^verbatim>\<open>self.command_received['SEND_WITH_ACK']\<close>.
\<close>

definition send_command_packet_ack :: "transport \<Rightarrow> byte list \<Rightarrow> Mambo
    \<Rightarrow> ((error + bool) \<times> Mambo) option" where
  "send_command_packet_ack t packet m =
     (case send_loop t packet 0 (set_command_received ''SEND_WITH_ACK'' False m) of
        None \<Rightarrow> None
      | Some (Inl e, m') \<Rightarrow> Some (Inl e, m')
      | Some (Inr u, m') \<Rightarrow>
          (case command_received m' ''SEND_WITH_ACK'' of
             None \<Rightarrow> Some (Inl KeyError, m')
           | Some received \<Rightarrow> Some (Inr received, m')))"

subsection \<open>Frames\<close>

text \<open>
  Each sender increments the counter of its channel and then packs the frame, reading
  the counter again. A command tuple that is \<^verbatim>\<open>None\<close> (name not found) raises
  \<^verbatim>\<open>TypeError\<close> at \<^verbatim>\<open>command_tuple[0]\<close>, after the increment.

  \<^verbatim>\<open>_send_noparam_command_packet_ack\<close>:
  \<^verbatim>\<open>struct.pack("<BBBBBB", self.data_types['DATA_WITH_ACK'],
      self.characteristic_send_counter['SEND_WITH_ACK'],
      command_tuple[0], command_tuple[1], command_tuple[2], 0)\<close>
\<close>

definition noparam_frame :: "(int \<times> int \<times> int) option \<Rightarrow> Mambo \<Rightarrow> (error + byte list) \<times> Mambo" where
  "noparam_frame command_tuple m =
     (case increment_counter ''SEND_WITH_ACK'' m of
        (Inl e, m') \<Rightarrow> (Inl e, m')
      | (Inr counter, m') \<Rightarrow>
          (case command_tuple of
             None \<Rightarrow> (Inl TypeError, m')
           | Some (project_id, class_id, cmd_id) \<Rightarrow>
               (pack [pack_B data_types_DATA_WITH_ACK, pack_B counter,
                      pack_B project_id, pack_B class_id, pack_B cmd_id, pack_B 0], m')))"

definition send_noparam_command_packet_ack :: "transport \<Rightarrow> (int \<times> int \<times> int) option \<Rightarrow> Mambo
    \<Rightarrow> ((error + bool) \<times> Mambo) option" where
  "send_noparam_command_packet_ack t command_tuple m =
     (case noparam_frame command_tuple m of
        (Inl e, m') \<Rightarrow> Some (Inl e, m')
      | (Inr packet, m') \<Rightarrow> send_command_packet_ack t packet m')"

text \<open>
  \<^verbatim>\<open>_send_enum_command_packet_ack(command_tuple, enum_value, usb_id=None)\<close>: without a
  \<open>usb_id\<close> the frame ends with the enum index as \<^verbatim>\<open>I\<close>. With a \<open>usb_id\<close> the code first
  calls \<^verbatim>\<open>self._debug_print\<close> with nine arguments, which raises \<^verbatim>\<open>TypeError\<close>.
\<close>

definition enum_frame :: "(int \<times> int \<times> int) option \<Rightarrow> int \<Rightarrow> pyval \<Rightarrow> Mambo
    \<Rightarrow> (error + byte list) \<times> Mambo" where
  "enum_frame command_tuple enum_value usb_id m =
     (case increment_counter ''SEND_WITH_ACK'' m of
        (Inl e, m') \<Rightarrow> (Inl e, m')
      | (Inr counter, m') \<Rightarrow>
          if usb_id = PNone then
            (case command_tuple of
               None \<Rightarrow> (Inl TypeError, m')
             | Some (project_id, class_id, cmd_id) \<Rightarrow>
                 (pack [pack_B data_types_DATA_WITH_ACK, pack_B counter,
                        pack_B project_id, pack_B class_id, pack_B cmd_id, pack_B 0,
                        pack_I enum_value], m'))
          else (Inl TypeError, m'))"

definition send_enum_command_packet_ack :: "transport \<Rightarrow> (int \<times> int \<times> int) option \<Rightarrow> int
    \<Rightarrow> pyval \<Rightarrow> Mambo \<Rightarrow> ((error + bool) \<times> Mambo) option" where
  "send_enum_command_packet_ack t command_tuple enum_value usb_id m =
     (case enum_frame command_tuple enum_value usb_id m of
        (Inl e, m') \<Rightarrow> Some (Inl e, m')
      | (Inr packet, m') \<Rightarrow> send_command_packet_ack t packet m')"

text \<open>The frame of \<^verbatim>\<open>turn_degrees\<close>, format \<^verbatim>\<open>"<BBBBBBh"\<close>, ends with the degrees.\<close>

definition turn_degrees_frame :: "(int \<times> int \<times> int) option \<Rightarrow> int \<Rightarrow> Mambo
    \<Rightarrow> (error + byte list) \<times> Mambo" where
  "turn_degrees_frame command_tuple degrees m =
     (case increment_counter ''SEND_WITH_ACK'' m of
        (Inl e, m') \<Rightarrow> (Inl e, m')
      | (Inr counter, m') \<Rightarrow>
          (case command_tuple of
             None \<Rightarrow> (Inl TypeError, m')
           | Some (project_id, class_id, cmd_id) \<Rightarrow>
               (pack [pack_B data_types_DATA_WITH_ACK, pack_B counter,
                      pack_B project_id, pack_B class_id, pack_B cmd_id, pack_B 0,
                      pack_h degrees], m')))"

text \<open>The frame of \<^verbatim>\<open>turn_on_auto_takeoff\<close>, format \<^verbatim>\<open>"<BBBBBBB"\<close>, ends with 1.\<close>

definition auto_takeoff_frame :: "(int \<times> int \<times> int) option \<Rightarrow> Mambo
    \<Rightarrow> (error + byte list) \<times> Mambo" where
  "auto_takeoff_frame command_tuple m =
     (case increment_counter ''SEND_WITH_ACK'' m of
        (Inl e, m') \<Rightarrow> (Inl e, m')
      | (Inr counter, m') \<Rightarrow>
          (case command_tuple of
             None \<Rightarrow> (Inl TypeError, m')
           | Some (project_id, class_id, cmd_id) \<Rightarrow>
               (pack [pack_B data_types_DATA_WITH_ACK, pack_B counter,
                      pack_B project_id, pack_B class_id, pack_B cmd_id, pack_B 0,
                      pack_B 1], m')))"

text \<open>
  The frame that \<^verbatim>\<open>fly_direct\<close> builds at every turn of its loop, on \<^verbatim>\<open>SEND_NO_ACK\<close>:
  \<^verbatim>\<open>struct.pack("<BBBBBBBbbbbI", self.data_types['DATA_NO_ACK'],
      self.characteristic_send_counter['SEND_NO_ACK'],
      command_tuple[0], command_tuple[1], command_tuple[2], 0,
      1, my_roll, my_pitch, my_yaw, my_vertical, 0)\<close>
\<close>

definition pcmd_frame :: "(int \<times> int \<times> int) option \<Rightarrow> int \<Rightarrow> int \<Rightarrow> int \<Rightarrow> int \<Rightarrow> Mambo
    \<Rightarrow> (error + byte list) \<times> Mambo" where
  "pcmd_frame command_tuple my_roll my_pitch my_yaw my_vertical m =
     (case increment_counter ''SEND_NO_ACK'' m of
        (Inl e, m') \<Rightarrow> (Inl e, m')
      | (Inr counter, m') \<Rightarrow>
          (case command_tuple of
             None \<Rightarrow> (Inl TypeError, m')
           | Some (project_id, class_id, cmd_id) \<Rightarrow>
               (pack [pack_B data_types_DATA_NO_ACK, pack_B counter,
                      pack_B project_id, pack_B class_id, pack_B cmd_id, pack_B 0,
                      pack_B 1, pack_b my_roll, pack_b my_pitch, pack_b my_yaw,
                      pack_b my_vertical, pack_I 0], m')))"

section \<open>Commands\<close>

text \<open>\<^verbatim>\<open>takeoff\<close>, and likewise \<^verbatim>\<open>land\<close>, \<^verbatim>\<open>hover\<close>, \<^verbatim>\<open>take_picture\<close>, \<^verbatim>\<open>ask_for_state_update\<close>.\<close>

definition noparam_command :: "transport \<Rightarrow> string \<Rightarrow> string \<Rightarrow> Mambo
    \<Rightarrow> ((error + bool) \<times> Mambo) option" where
  "noparam_command t myclass cmd m =
     (case get_command_tuple myclass cmd m of
        (Inl e, m') \<Rightarrow> Some (Inl e, m')
      | (Inr command_tuple, m') \<Rightarrow> send_noparam_command_packet_ack t command_tuple m')"

definition takeoff :: "transport \<Rightarrow> Mambo \<Rightarrow> ((error + bool) \<times> Mambo) option" where
  "takeoff t m = noparam_command t ''Piloting'' ''TakeOff'' m"

definition land :: "transport \<Rightarrow> Mambo \<Rightarrow> ((error + bool) \<times> Mambo) option" where
  "land t m = noparam_command t ''Piloting'' ''Landing'' m"

definition hover :: "transport \<Rightarrow> Mambo \<Rightarrow> ((error + bool) \<times> Mambo) option" where
  "hover t m = noparam_command t ''Piloting'' ''FlatTrim'' m"

definition turn_degrees :: "transport \<Rightarrow> int \<Rightarrow> Mambo \<Rightarrow> ((error + bool) \<times> Mambo) option" where
  "turn_degrees t degrees m =
     (case get_command_tuple ''Animations'' ''Cap'' m of
        (Inl e, m') \<Rightarrow> Some (Inl e, m')
      | (Inr command_tuple, m') \<Rightarrow>
          (case turn_degrees_frame command_tuple degrees m' of
             (Inl e, m'') \<Rightarrow> Some (Inl e, m'')
           | (Inr packet, m'') \<Rightarrow> send_command_packet_ack t packet m''))"

definition turn_on_auto_takeoff :: "transport \<Rightarrow> Mambo \<Rightarrow> ((error + bool) \<times> Mambo) option" where
  "turn_on_auto_takeoff t m =
     (case get_command_tuple ''Piloting'' ''AutoTakeOffMode'' m of
        (Inl e, m') \<Rightarrow> Some (Inl e, m')
      | (Inr command_tuple, m') \<Rightarrow>
          (case auto_takeoff_frame command_tuple m' of
             (Inl e, m'') \<Rightarrow> Some (Inl e, m'')
           | (Inr packet, m'') \<Rightarrow> send_command_packet_ack t packet m''))"

subsection \<open>flip\<close>

text \<open>
  Python's \<^verbatim>\<open>format % values\<close> for a format whose only conversions are \<^verbatim>\<open>%s\<close>, with the
  values as a list of strings: too few values raise \<^verbatim>\<open>TypeError\<close> (not enough arguments
  for format string), too many as well (not all arguments converted).
\<close>

fun py_format :: "string \<Rightarrow> string list \<Rightarrow> error + string" where
  "py_format [] vals = (if vals = [] then Inr [] else Inl TypeError)"
| "py_format [c] vals = (if vals = [] then Inr [c] else Inl TypeError)"
| "py_format (c # d # rest) vals =
     (if c = CHR ''%'' \<and> d = CHR ''s'' then
        (case vals of
           [] \<Rightarrow> Inl TypeError
         | v # vals' \<Rightarrow>
             (case py_format rest vals' of Inl e \<Rightarrow> Inl e | Inr out \<Rightarrow> Inr (v @ out)))
      else (case py_format (d # rest) vals of Inl e \<Rightarrow> Inl e | Inr out \<Rightarrow> Inr (c # out)))"

text \<open>
  \<^verbatim>\<open>flip(direction)\<close>, for a string \<open>direction\<close>. The result is \<^verbatim>\<open>None\<close> or a boolean.
  The first statement of the branch for an invalid direction is
  \<^verbatim>\<open>print "Error: %s is not a valid direction.  Must be one of %s" % direction, "front, back, right, or left"\<close>,
  in which \<^verbatim>\<open>%\<close> binds tighter than the comma: the format is applied to \<open>direction\<close> alone.
  The tuple assignment \<^verbatim>\<open>(command_tuple, enum_tuple) = ...\<close> raises \<^verbatim>\<open>TypeError\<close> when the
  name is not found.
\<close>

definition flip :: "transport \<Rightarrow> string \<Rightarrow> Mambo \<Rightarrow> ((error + bool option) \<times> Mambo) option" where
  "flip t direction m =
     (if direction \<notin> set [''front'', ''back'', ''right'', ''left''] then
        (case py_format ''Error: %s is not a valid direction.  Must be one of %s'' [direction] of
           Inl e \<Rightarrow> Some (Inl e, m)
         | Inr line \<Rightarrow> Some (Inr None, m))
      else
        (case get_command_tuple_with_enum ''Animations'' ''Flip'' direction m of
           (Inl e, m') \<Rightarrow> Some (Inl e, m')
         | (Inr None, m') \<Rightarrow> Some (Inl TypeError, m')
         | (Inr (Some (command_tuple, enum_tuple)), m') \<Rightarrow>
             (case send_enum_command_packet_ack t (Some command_tuple) (int enum_tuple) PNone m' of
                None \<Rightarrow> None
              | Some (Inl e, m'') \<Rightarrow> Some (Inl e, m'')
              | Some (Inr success, m'') \<Rightarrow> Some (Inr (Some success), m''))))"

subsection \<open>Direct flight\<close>

text \<open>\<^verbatim>\<open>_ensure_fly_command_in_range(value)\<close>\<close>

definition ensure_fly_command_in_range :: "int \<Rightarrow> int" where
  "ensure_fly_command_in_range v = (if v < -100 then -100 else if v > 100 then 100 else v)"

text \<open>
  The loop of \<^verbatim>\<open>fly_direct\<close>, once for each wait that the clock allows: build the frame,
  write it on \<^verbatim>\<open>SEND_NO_ACK\<close>, wait for a notification. The wait is outside any
  \<^verbatim>\<open>try\<close>: what it raises ends \<^verbatim>\<open>fly_direct\<close>.
\<close>

fun fly_loop :: "transport \<Rightarrow> (int \<times> int \<times> int) option \<Rightarrow> int \<Rightarrow> int \<Rightarrow> int \<Rightarrow> int
    \<Rightarrow> wait_outcome list \<Rightarrow> Mambo \<Rightarrow> ((error + unit) \<times> Mambo) option" where
  "fly_loop t command_tuple my_roll my_pitch my_yaw my_vertical [] m = Some (Inr (), m)"
| "fly_loop t command_tuple my_roll my_pitch my_yaw my_vertical (w # ws) m =
     (case pcmd_frame command_tuple my_roll my_pitch my_yaw my_vertical m of
        (Inl e, m1) \<Rightarrow> Some (Inl e, m1)
      | (Inr packet, m1) \<Rightarrow>
          (case send_characteristics m1 ''SEND_NO_ACK'' of
             None \<Rightarrow> Some (Inl KeyError, m1)
           | Some c \<Rightarrow>
               (case safe_ble_write t c packet m1 of
                  None \<Rightarrow> None
                | Some (Inl e, m2) \<Rightarrow> Some (Inl e, m2)
                | Some (Inr u, m2) \<Rightarrow>
                    (case waitForNotifications t w m2 of
                       None \<Rightarrow> None
                     | Some (Inl e, m3) \<Rightarrow> Some (Inl e, m3)
                     | Some (Inr u', m3) \<Rightarrow>
                         fly_loop t command_tuple my_roll my_pitch my_yaw my_vertical ws m3))))"

text \<open>\<^verbatim>\<open>fly_direct(roll, pitch, yaw, vertical_movement, duration)\<close>\<close>

definition fly_direct :: "transport \<Rightarrow> int \<Rightarrow> int \<Rightarrow> int \<Rightarrow> int \<Rightarrow> Mambo
    \<Rightarrow> ((error + unit) \<times> Mambo) option" where
  "fly_direct t roll pitch yaw vertical_movement m =
     (let my_roll = ensure_fly_command_in_range roll;
          my_pitch = ensure_fly_command_in_range pitch;
          my_yaw = ensure_fly_command_in_range yaw;
          my_vertical = ensure_fly_command_in_range vertical_movement
      in case get_command_tuple ''Piloting'' ''PCMD'' m of
           (Inl e, m') \<Rightarrow> Some (Inl e, m')
         | (Inr command_tuple, m') \<Rightarrow>
             fly_loop t command_tuple my_roll my_pitch my_yaw my_vertical
               (waits t (drone_sleeps m')) (m'\<lparr>drone_sleeps := Suc (drone_sleeps m')\<rparr>))"

section \<open>Connecting\<close>

text \<open>
  \<^verbatim>\<open>_get_byte_str_from_uuid(uuid, byte_start, byte_end)\<close>: the slice
  \<^verbatim>\<open>uuid_str[2 * (byte_start - 1) : 2 * byte_end]\<close> of the uuid written as a string.
\<close>

definition get_byte_str_from_uuid :: "string \<Rightarrow> nat \<Rightarrow> nat \<Rightarrow> string" where
  "get_byte_str_from_uuid uuid_str byte_start byte_end =
     (let idx_start = 2 * (byte_start - 1); idx_end = 2 * byte_end
      in drop idx_start (take idx_end uuid_str))"

text \<open>\<^verbatim>\<open>d[k] = v\<close> on a dictionary kept as a list of pairs.\<close>

fun dict_set :: "'k \<Rightarrow> 'v \<Rightarrow> ('k \<times> 'v) list \<Rightarrow> ('k \<times> 'v) list" where
  "dict_set k v [] = [(k, v)]"
| "dict_set k v ((k', v') # kvs) =
     (if k = k' then (k, v) # kvs else (k', v') # dict_set k v kvs)"

text \<open>
  The loops over the characteristics of one service. For the receiving service each
  characteristic listed in \<open>characteristic_receive_uuids\<close> is stored under its channel
  name, and its handle is mapped to the two hex digits; for the sending service and the
  two FTP services the characteristic is stored only.
\<close>

fun store_receive :: "characteristic list \<Rightarrow> (nat \<rightharpoonup> string) \<times> Mambo \<Rightarrow> (nat \<rightharpoonup> string) \<times> Mambo" where
  "store_receive [] (handle_map, m) = (handle_map, m)"
| "store_receive (c # cs) (handle_map, m) =
     (let hex_str = get_byte_str_from_uuid (uuid c) 4 4
      in case map_of characteristic_receive_uuids hex_str of
           None \<Rightarrow> store_receive cs (handle_map, m)
         | Some name \<Rightarrow>
             store_receive cs
               (handle_map(getHandle c \<mapsto> hex_str),
                m\<lparr>receive_characteristics := (receive_characteristics m)(name \<mapsto> c)\<rparr>))"

fun store_send :: "characteristic list \<Rightarrow> Mambo \<Rightarrow> Mambo" where
  "store_send [] m = m"
| "store_send (c # cs) m =
     (case map_of characteristic_send_uuids (get_byte_str_from_uuid (uuid c) 4 4) of
        None \<Rightarrow> store_send cs m
      | Some name \<Rightarrow>
          store_send cs (m\<lparr>send_characteristics := (send_characteristics m)(name \<mapsto> c)\<rparr>))"

fun store_ftp :: "characteristic list \<Rightarrow> Mambo \<Rightarrow> Mambo" where
  "store_ftp [] m = m"
| "store_ftp (c # cs) m =
     (case map_of characteristic_ftp_uuids (get_byte_str_from_uuid (uuid c) 4 4) of
        None \<Rightarrow> store_ftp cs m
      | Some name \<Rightarrow>
          store_ftp cs (m\<lparr>ftp_characteristics := (ftp_characteristics m)(name \<mapsto> c)\<rparr>))"

text \<open>The last loop of the body: the characteristics that take part in the handshake.\<close>

fun store_handshake :: "characteristic list \<Rightarrow> Mambo \<Rightarrow> Mambo" where
  "store_handshake [] m = m"
| "store_handshake (c # cs) m =
     (let key = get_byte_str_from_uuid (uuid c) 3 4
      in if key \<in> set [''fb0f'', ''fb0e'', ''fb1b'', ''fb1c'', ''fd22'', ''fd23'', ''fd24'',
                       ''fd52'', ''fd53'', ''fd54'']
         then store_handshake cs
                (m\<lparr>handshake_characteristics := dict_set key c (handshake_characteristics m)\<rparr>)
         else store_handshake cs m)"

text \<open>
  The body of \<^verbatim>\<open>for s in self.services\<close>. \<^verbatim>\<open>self.service_uuids[hex_str]\<close> raises
  \<^verbatim>\<open>KeyError\<close> for a service that is not in the table.
\<close>

fun scan_services :: "service list \<Rightarrow> (nat \<rightharpoonup> string) \<times> Mambo
    \<Rightarrow> (error + unit) \<times> (nat \<rightharpoonup> string) \<times> Mambo" where
  "scan_services [] (handle_map, m) = (Inr (), handle_map, m)"
| "scan_services (s # ss) (handle_map, m) =
     (case service_uuids (get_byte_str_from_uuid (s_uuid s) 3 4) of
        None \<Rightarrow> (Inl KeyError, handle_map, m)
      | Some kind \<Rightarrow>
          (let (handle_map', m') =
                 (if kind = ''ARCOMMAND_RECEIVING_SERVICE''
                    then store_receive (getCharacteristics s) (handle_map, m)
                  else if kind = ''ARCOMMAND_SENDING_SERVICE''
                    then (handle_map, store_send (getCharacteristics s) m)
                  else if kind = ''UPDATE_BLE_FTP''
                    then (handle_map, store_ftp (getCharacteristics s) m)
                  else if kind = ''NORMAL_BLE_FTP_SERVICE''
                    then (handle_map, store_ftp (getCharacteristics s) m)
                  else (handle_map, m))
           in scan_services ss (handle_map', store_handshake (getCharacteristics s) m')))"

text \<open>
  The check that ends the discovery: every receive, send and FTP channel has its
  characteristic, and there are 10 handshake characteristics.
\<close>

definition allServicesFound :: "Mambo \<Rightarrow> bool" where
  "allServicesFound m \<longleftrightarrow>
     list_all (\<lambda>r_id. receive_characteristics m r_id \<noteq> None) (map snd characteristic_receive_uuids)
     \<and> list_all (\<lambda>s_id. send_characteristics m s_id \<noteq> None) (map snd characteristic_send_uuids)
     \<and> list_all (\<lambda>f_id. ftp_characteristics m f_id \<noteq> None) (map snd characteristic_ftp_uuids)
     \<and> length (handshake_characteristics m) = 10"

text \<open>
  \<^verbatim>\<open>while not allServicesFound\<close>: the services are asked for again until everything is
  found. Nothing bounds the loop: \<open>None\<close> is a discovery that never ends.
\<close>

partial_function (option) discover ::
    "transport \<Rightarrow> (nat \<rightharpoonup> string) \<Rightarrow> Mambo \<Rightarrow> ((error + (nat \<rightharpoonup> string)) \<times> Mambo) option" where
  "discover t handle_map m =
     (case scan_services (getServices t (drone_scans m))
             (handle_map, m\<lparr>drone_scans := Suc (drone_scans m)\<rparr>) of
        (Inl e, handle_map', m') \<Rightarrow> Some (Inl e, m')
      | (Inr u, handle_map', m') \<Rightarrow>
          if allServicesFound m' then Some (Inr handle_map', m')
          else discover t handle_map' m')"

declare discover.simps [code]

text \<open>
  \<^verbatim>\<open>_connect\<close>: connect, discover, handshake, and set the delegate with the handle map.
\<close>

definition connect_once :: "transport \<Rightarrow> Mambo \<Rightarrow> ((error + unit) \<times> Mambo) option" where
  "connect_once t m =
     (case drone_connect t m of
        (Inl e, m1) \<Rightarrow> Some (Inl e, m1)
      | (Inr u, m1) \<Rightarrow>
          (case discover t Map.empty m1 of
             None \<Rightarrow> None
           | Some (Inl e, m2) \<Rightarrow> Some (Inl e, m2)
           | Some (Inr handle_map, m2) \<Rightarrow>
               (case perform_handshake t m2 of
                  (Inl e, m3) \<Rightarrow> Some (Inl e, m3)
                | (Inr u', m3) \<Rightarrow> Some (Inr (), m3\<lparr>delegate := Some handle_map\<rparr>))))"

text \<open>
  The loop of \<^verbatim>\<open>connect(num_retries)\<close>:
  \<^verbatim>\<open>
  try_num = 1
  while (try_num < num_retries):
      try:
          self._connect()
          return True
      except BTLEException:
          try_num += 1
  return False
  \<close>
\<close>

function connect_loop :: "transport \<Rightarrow> int \<Rightarrow> int \<Rightarrow> Mambo \<Rightarrow> ((error + bool) \<times> Mambo) option" where
  "connect_loop t try_num num_retries m =
     (if try_num < num_retries then
        (case connect_once t m of
           None \<Rightarrow> None
         | Some (Inr u, m') \<Rightarrow> Some (Inr True, m')
         | Some (Inl e, m') \<Rightarrow>
             if e = BTLEException then connect_loop t (try_num + 1) num_retries m'
             else Some (Inl e, m'))
      else Some (Inr False, m))"
  by pat_completeness auto
termination
  by (relation "measure (\<lambda>(t, try_num, num_retries, m). nat (num_retries - try_num))") auto

definition connect :: "transport \<Rightarrow> int \<Rightarrow> Mambo \<Rightarrow> ((error + bool) \<times> Mambo) option" where
  "connect t num_retries m = connect_loop t 1 num_retries m"

section \<open>An example session\<close>

text \<open>
  An excerpt in the shape of \<^verbatim>\<open>minidrone.xml\<close> and \<^verbatim>\<open>common.xml\<close>, a link that never
  fails, and a client after discovery. The theorems below are instantiated on them.
\<close>

definition example_minidrone :: xml_project where
  "example_minidrone =
     \<lparr> p_id = 2, p_myclass =
       [\<lparr> k_id = 0, k_name = ''Piloting'', k_cmd =
           [\<lparr> c_id = 0, c_name = ''FlatTrim'', c_arg = [] \<rparr>,
            \<lparr> c_id = 1, c_name = ''TakeOff'', c_arg = [] \<rparr>,
            \<lparr> c_id = 2, c_name = ''PCMD'', c_arg =
                [\<lparr> a_name = ''flag'', a_type = ''u8'', a_enum = [] \<rparr>,
                 \<lparr> a_name = ''roll'', a_type = ''i8'', a_enum = [] \<rparr>] \<rparr>,
            \<lparr> c_id = 3, c_name = ''Landing'', c_arg = [] \<rparr>] \<rparr>,
        \<lparr> k_id = 3, k_name = ''PilotingState'', k_cmd =
           [\<lparr> c_id = 1, c_name = ''FlyingStateChanged'', c_arg =
                [\<lparr> a_name = ''state'', a_type = ''enum'', a_enum =
                     [''landed'', ''takingoff'', ''hovering'', ''flying'', ''landing'',
                      ''emergency'', ''rolling'', ''init''] \<rparr>] \<rparr>] \<rparr>,
        \<lparr> k_id = 4, k_name = ''Animations'', k_cmd =
           [\<lparr> c_id = 0, c_name = ''Flip'', c_arg =
                [\<lparr> a_name = ''direction'', a_type = ''enum'', a_enum =
                     [''front'', ''back'', ''right'', ''left''] \<rparr>] \<rparr>] \<rparr>,
        \<lparr> k_id = 15, k_name = ''UsbAccessoryState'', k_cmd =
           [\<lparr> c_id = 1, c_name = ''ClawState'', c_arg =
                [\<lparr> a_name = ''id'', a_type = ''u8'', a_enum = [] \<rparr>,
                 \<lparr> a_name = ''state'', a_type = ''enum'', a_enum =
                     [''OPENED'', ''OPENING'', ''CLOSED'', ''CLOSING''] \<rparr>,
                 \<lparr> a_name = ''list_flags'', a_type = ''u8'', a_enum = [] \<rparr>] \<rparr>] \<rparr>] \<rparr>"

definition example_common :: xml_project where
  "example_common =
     \<lparr> p_id = 0, p_myclass =
       [\<lparr> k_id = 5, k_name = ''CommonState'', k_cmd =
           [\<lparr> c_id = 1, c_name = ''BatteryStateChanged'', c_arg =
                [\<lparr> a_name = ''percent'', a_type = ''u8'', a_enum = [] \<rparr>] \<rparr>] \<rparr>] \<rparr>"

text \<open>The characteristic of a channel, with the two hex digits of its uuid as given.\<close>

definition example_characteristic :: "string \<Rightarrow> nat \<Rightarrow> characteristic" where
  "example_characteristic hex_str h =
     \<lparr> uuid = ''9a66fb'' @ hex_str @ ''-0800-9191-11e4-012d1540cb8e'', handle = h,
       getHandle = Suc h \<rparr>"

text \<open>
  The client after \<^verbatim>\<open>__init__\<close> and a discovery that found the four send
  characteristics and mapped the handles of the four receive characteristics.
\<close>

definition example_mambo :: Mambo where
  "example_mambo =
     (Mambo_init example_minidrone example_common)
       \<lparr> send_characteristics :=
           [''SEND_NO_ACK'' \<mapsto> example_characteristic ''0a'' 10,
            ''SEND_WITH_ACK'' \<mapsto> example_characteristic ''0b'' 20,
            ''SEND_HIGH_PRIORITY'' \<mapsto> example_characteristic ''0c'' 30,
            ''ACK_COMMAND'' \<mapsto> example_characteristic ''1e'' 40],
         delegate :=
           Some [51 \<mapsto> ''0e'', 61 \<mapsto> ''0f'', 71 \<mapsto> ''1b'', 81 \<mapsto> ''1c''] \<rparr>"

text \<open>A link on which nothing raises; the \<open>n\<close>-th timed loop makes the waits \<open>ws n\<close>.\<close>

definition reliable_link :: "(nat \<Rightarrow> wait_outcome list) \<Rightarrow> transport" where
  "reliable_link ws =
     \<lparr> connect_raises = (\<lambda>n. False), write_raises = (\<lambda>n. False),
       getServices = (\<lambda>n. []), waits = ws \<rparr>"


text \<open>A reliable link on which every timed loop makes two waits, which time out.\<close>

definition two_turn_link :: transport where
  "two_turn_link = reliable_link (\<lambda>n. [Timeout, Timeout])"


text \<open>A link that is down: every connection attempt raises \<^verbatim>\<open>BTLEException\<close>.\<close>

definition dead_link :: transport where
  "dead_link =
     \<lparr> connect_raises = (\<lambda>n. True), write_raises = (\<lambda>n. True),
       getServices = (\<lambda>n. []), waits = (\<lambda>n. []) \<rparr>"

text \<open>A reliable link on which no timed loop sees a notification.\<close>

definition quiet_link :: transport where
  "quiet_link = reliable_link (\<lambda>n. [])"

text \<open>
  A reliable link on which every timed loop sees one notification, on the handle of
  \<^verbatim>\<open>ACK_DRONE_DATA\<close>, with a frame of three bytes.
\<close>

definition short_frame_link :: transport where
  "short_frame_link = reliable_link (\<lambda>n. [Notification 51 [1, 2, 3]])"

text \<open>
  A frame for the command \<open>ClawState\<close>, which declares three arguments: the header, then
  \<open>id = 1\<close>, \<open>state = 2\<close>, \<open>list_flags = 0\<close>.
\<close>

definition claw_frame :: "byte list" where
  "claw_frame = [2, 5, 2, 15, 1, 0, 1, 2, 0]"

section \<open>Vocabulary for the send and ack cycle\<close>

text \<open>
  The packets written with \<^verbatim>\<open>c.write\<close> on the characteristic \<open>c\<close>, in the order of the
  writes.
\<close>

fun writes_on :: "characteristic \<Rightarrow> ble_write list \<Rightarrow> byte list list" where
  "writes_on c [] = []"
| "writes_on c (Characteristic_write c' packet # ws) =
     (if c' = c then packet # writes_on c ws else writes_on c ws)"
| "writes_on c (writeCharacteristic h v # ws) = writes_on c ws"

text \<open>
  A wait that delivers the ack of a command: a notification on a handle that the
  delegate of \<open>m\<close> resolves to the channel \<^verbatim>\<open>ACK_COMMAND_SENT\<close>.
\<close>

definition acks_command :: "Mambo \<Rightarrow> wait_outcome \<Rightarrow> bool" where
  "acks_command m w =
     (case w of
        Notification cHandle data \<Rightarrow>
          (case delegate m of
             None \<Rightarrow> False
           | Some handle_map \<Rightarrow>
               (case handle_map cHandle of
                  None \<Rightarrow> False
                | Some hex_str \<Rightarrow>
                    map_of characteristic_receive_uuids hex_str = Some ''ACK_COMMAND_SENT''))
      | Timeout \<Rightarrow> False
      | Wait_raises \<Rightarrow> False)"

text \<open>
  What the handling of notifications, reconnections and writes on other characteristics
  leave alone: the table of send characteristics, the delegate, the number of timed
  loops started, the counter of \<^verbatim>\<open>SEND_NO_ACK\<close>, and the packets written on \<open>c\<close>.
\<close>

definition undisturbed :: "characteristic \<Rightarrow> Mambo \<Rightarrow> Mambo \<Rightarrow> bool" where
  "undisturbed c m m' \<longleftrightarrow>
     send_characteristics m' = send_characteristics m
     \<and> delegate m' = delegate m
     \<and> drone_sleeps m' = drone_sleeps m
     \<and> characteristic_send_counter m' ''SEND_NO_ACK''
         = characteristic_send_counter m ''SEND_NO_ACK''
     \<and> writes_on c (drone_written m') = writes_on c (drone_written m)"

section \<open>Properties of the codec and of single steps\<close>

lemma le_bytes_4_0: "le_bytes 4 0 = [0, 0, 0, 0]"
  by (simp add: eval_nat_numeral)

lemma next_counter_range: "0 \<le> next_counter c \<and> next_counter c \<le> 255"
  by (simp add: next_counter_def)

lemma pack_B_next: "pack_B (next_counter c) = Inr [word_of_int (next_counter c)]"
  using next_counter_range [of c] by (simp add: pack_B_def)

lemma pack_B_byte: "0 \<le> v \<Longrightarrow> v \<le> 255 \<Longrightarrow> pack_B v = Inr [word_of_int v]"
  by (simp add: pack_B_def)

text \<open>A write that the link accepts ends \<open>safe_ble_write\<close> at once.\<close>

lemma safe_ble_write_ok:
  "\<not> write_raises t (drone_writes m) \<Longrightarrow>
   safe_ble_write t c packet m =
     Some (Inr (), m\<lparr>drone_writes := Suc (drone_writes m),
                     drone_written := drone_written m @ [Characteristic_write c packet]\<rparr>)"
  by (subst safe_ble_write.simps) (simp add: drone_write_def)

text \<open>Looking a name up changes nothing but the cache of names.\<close>

lemma get_command_tuple_fields:
  assumes "get_command_tuple myclass cmd m = (r, m')"
  shows "characteristic_send_counter m' = characteristic_send_counter m"
    and "send_characteristics m' = send_characteristics m"
    and "drone_sleeps m' = drone_sleeps m"
    and "drone_writes m' = drone_writes m"
    and "drone_written m' = drone_written m"
  using assms
  by (auto simp: get_command_tuple_def split: option.splits sum.splits)

lemma example_pcmd:
  "get_command_tuple ''Piloting'' ''PCMD'' example_mambo =
     (Inr (Some (2, 0, 2)),
      example_mambo\<lparr>command_tuple_cache := [(''Piloting'', ''PCMD'') \<mapsto> (2, 0, 2)]\<rparr>)"
  by (simp add: get_command_tuple_def search_project_def example_mambo_def Mambo_init_def
      example_minidrone_def)

section \<open>Channel counters\<close>



lemma uint_next_counter: "uint (word_of_int (next_counter c) :: byte) = next_counter c"
  by (simp add: uint_word_of_int next_counter_def)



lemma example_counters:
  "characteristic_send_counter example_mambo ''SEND_WITH_ACK'' = Some 0"
  "characteristic_send_counter example_mambo ''SEND_NO_ACK'' = Some 0"
  "characteristic_send_counter example_mambo ''ACK_COMMAND'' = Some 0"
  by (simp_all add: example_mambo_def Mambo_init_def)


















section \<open>A link on which every write succeeds\<close>

text \<open>
  On such a link every call below returns, and the handling of notifications and the
  reconnections leave alone what \<open>undisturbed\<close> lists. A notification sets the flag of
  \<open>SEND_WITH_ACK\<close> exactly when it is the ack of a command.
\<close>

lemma writes_on_append: "writes_on c (xs @ ys) = writes_on c xs @ writes_on c ys"
  by (induction xs rule: writes_on.induct) auto

lemma undisturbed_refl: "undisturbed c m m"
  by (simp add: undisturbed_def)

lemma undisturbed_trans: "undisturbed c m m1 \<Longrightarrow> undisturbed c m1 m2 \<Longrightarrow> undisturbed c m m2"
  by (simp add: undisturbed_def)




lemma ack_packet_up:
  assumes "\<And>n. \<not> write_raises t n" and "send_characteristics m ''ACK_COMMAND'' \<noteq> Some c"
  shows "\<exists>r m'. ack_packet t packet_id m = Some (r, m') \<and> undisturbed c m m'
      \<and> command_received m' = command_received m"
proof (cases "ack_packet_frame packet_id m")
  case (Pair f m1)
  have u: "undisturbed c m m1" "command_received m1 = command_received m"
    using Pair
    by (auto simp: ack_packet_frame_def increment_counter_def undisturbed_def
        split: option.splits)
  show ?thesis
  proof (cases f)
    case (Inl e)
    with Pair u show ?thesis by (auto simp: ack_packet_def)
  next
    case (Inr packet)
    show ?thesis
    proof (cases "send_characteristics m1 ''ACK_COMMAND''")
      case None
      with Pair Inr u show ?thesis by (auto simp: ack_packet_def)
    next
      case (Some c')
      then have "c' \<noteq> c"
        using assms(2) u(1) by (auto simp: undisturbed_def)
      then have "undisturbed c m1
          (m1\<lparr>drone_writes := Suc (drone_writes m1),
              drone_written := drone_written m1 @ [Characteristic_write c' packet]\<rparr>)"
        by (simp add: undisturbed_def writes_on_append)
      with Pair Inr Some u show ?thesis
        by (auto simp: ack_packet_def safe_ble_write_ok assms(1) intro: undisturbed_trans)
    qed
  qed
qed

lemma parse_sensor_tuple_up:
  "parse_sensor_tuple header_tuple m = (r, m') \<Longrightarrow>
   undisturbed c m m' \<and> command_received m' = command_received m"
  by (auto simp: parse_sensor_tuple_def cache_sensor_fields_def undisturbed_def
      split: option.splits sum.splits prod.splits)

lemma update_fields_up:
  "update_fields names data_sizes data m = (r, m') \<Longrightarrow>
   undisturbed c m m' \<and> command_received m' = command_received m"
proof (induction names data_sizes data m rule: update_fields.induct)
  case (1 data_sizes data m)
  then show ?case by (simp add: undisturbed_refl)
next
  case (2 name names data m)
  then show ?case by (auto simp: undisturbed_refl)
next
  case (3 name names data_size data_sizes data m)
  show ?case
  proof (cases "decode_sensor data_size data")
    case (Inl e)
    with "3.prems" show ?thesis by (auto simp: undisturbed_refl)
  next
    case (Inr v)
    show ?thesis
    proof (cases "update name v (sensor_tuple_cache_enum m) (sensors m)")
      case (Inl e)
      with "3.prems" Inr show ?thesis by (auto simp: undisturbed_refl)
    next
      case (Inr s)
      with "3.prems" \<open>decode_sensor data_size data = Inr v\<close>
      have "update_fields names data_sizes data (m\<lparr>sensors := s\<rparr>) = (r, m')"
        by simp
      from "3.IH" [OF \<open>decode_sensor data_size data = Inr v\<close> Inr this]
      show ?thesis by (simp add: undisturbed_def)
    qed
  qed
qed

lemma update_sensors_up:
  assumes "\<And>n. \<not> write_raises t n" and "send_characteristics m ''ACK_COMMAND'' \<noteq> Some c"
  shows "\<exists>r m'. update_sensors t data ack m = Some (r, m') \<and> undisturbed c m m'
      \<and> command_received m' = command_received m"
proof (cases "unpack_header data")
  case (Inl e)
  then show ?thesis by (auto simp: update_sensors_def undisturbed_refl)
next
  case (Inr header_tuple)
  obtain r1 m1 where p: "parse_sensor_tuple header_tuple m = (r1, m1)"
    by (cases "parse_sensor_tuple header_tuple m")
  note u1 = parse_sensor_tuple_up [OF p, of c]
  show ?thesis
  proof (cases r1)
    case (Inl e)
    with Inr p u1 show ?thesis by (auto simp: update_sensors_def)
  next
    case r1: (Inr parsed)
    obtain r2 m2 where f: "(case parsed of None \<Rightarrow> (Inr (), m1)
        | Some (names, data_sizes) \<Rightarrow> update_fields names data_sizes data m1) = (r2, m2)"
      by (cases "(case parsed of None \<Rightarrow> (Inr (), m1)
        | Some (names, data_sizes) \<Rightarrow> update_fields names data_sizes data m1)")
    have u2: "undisturbed c m1 m2 \<and> command_received m2 = command_received m1"
      using f update_fields_up [of _ _ data m1 r2 m2 c]
      by (auto simp: undisturbed_refl split: option.splits)
    have u12: "undisturbed c m m2" "command_received m2 = command_received m"
      using u1 u2 by (auto intro: undisturbed_trans)
    show ?thesis
    proof (cases "ack \<and> (\<exists>u. r2 = Inr u)")
      case True
      have "send_characteristics m2 ''ACK_COMMAND'' \<noteq> Some c"
        using assms(2) u12(1) by (simp add: undisturbed_def)
      from ack_packet_up [OF assms(1) this, of "fst (snd header_tuple)"]
      obtain r3 m3 where a: "ack_packet t (fst (snd header_tuple)) m2 = Some (r3, m3)"
        "undisturbed c m2 m3" "command_received m3 = command_received m2"
        by blast
      with Inr p r1 f True u12 show ?thesis
        by (auto simp: update_sensors_def intro: undisturbed_trans)
    next
      case False
      with Inr p r1 f u12 show ?thesis
        by (cases r2) (auto simp: update_sensors_def)
    qed
  qed
qed

lemma handleNotification_up:
  assumes "\<And>n. \<not> write_raises t n" and "send_characteristics m ''ACK_COMMAND'' \<noteq> Some c"
  shows "\<exists>r m'. handleNotification t handle_map cHandle data m = Some (r, m')
      \<and> undisturbed c m m'
      \<and> (if \<exists>hex_str. handle_map cHandle = Some hex_str
               \<and> map_of characteristic_receive_uuids hex_str = Some ''ACK_COMMAND_SENT''
          then command_received m' ''SEND_WITH_ACK'' = Some True
          else command_received m' ''SEND_WITH_ACK'' = command_received m ''SEND_WITH_ACK'')"
proof (cases "handle_map cHandle")
  case None
  then show ?thesis by (simp add: handleNotification_def undisturbed_refl)
next
  case (Some hex_str)
  show ?thesis
  proof (cases "map_of characteristic_receive_uuids hex_str")
    case None
    with Some show ?thesis by (simp add: handleNotification_def undisturbed_refl)
  next
    case ch: (Some channel)
    from update_sensors_up [OF assms, of data True] update_sensors_up [OF assms, of data False]
    obtain r1 m1 r2 m2 where
      "update_sensors t data True m = Some (r1, m1)" "undisturbed c m m1"
      "command_received m1 = command_received m"
      "update_sensors t data False m = Some (r2, m2)" "undisturbed c m m2"
      "command_received m2 = command_received m"
      by blast
    with Some ch show ?thesis
      by (auto simp: handleNotification_def set_command_received_def undisturbed_def)
  qed
qed

lemma waitForNotifications_up:
  assumes "\<And>n. \<not> write_raises t n" and "send_characteristics m ''ACK_COMMAND'' \<noteq> Some c"
  shows "\<exists>r m'. waitForNotifications t w m = Some (r, m') \<and> undisturbed c m m'
      \<and> (if acks_command m w then command_received m' ''SEND_WITH_ACK'' = Some True
          else command_received m' ''SEND_WITH_ACK'' = command_received m ''SEND_WITH_ACK'')"
proof (cases w)
  case (Notification cHandle data)
  show ?thesis
  proof (cases "delegate m")
    case None
    with Notification show ?thesis
      by (simp add: waitForNotifications_def acks_command_def undisturbed_refl)
  next
    case (Some handle_map)
    from handleNotification_up [OF assms, of handle_map cHandle data]
    show ?thesis
      using Notification Some
      by (auto simp: waitForNotifications_def acks_command_def split: option.splits if_splits)
  qed
next
  case Timeout
  then show ?thesis
    by (simp add: waitForNotifications_def acks_command_def undisturbed_refl)
next
  case Wait_raises
  then show ?thesis
    by (simp add: waitForNotifications_def acks_command_def undisturbed_refl)
qed




lemma example_link_up:
  "\<forall>n. \<not> write_raises (reliable_link ws) n"
  by (simp add: reliable_link_def)

lemma example_send_characteristics:
  "send_characteristics example_mambo ''SEND_NO_ACK'' = Some (example_characteristic ''0a'' 10)"
  "send_characteristics example_mambo ''SEND_WITH_ACK'' = Some (example_characteristic ''0b'' 20)"
  "send_characteristics example_mambo ''ACK_COMMAND'' = Some (example_characteristic ''1e'' 40)"
  by (simp_all add: example_mambo_def)

lemma example_characteristics_differ:
  "example_characteristic ''1e'' 40 \<noteq> example_characteristic ''0a'' 10"
  "example_characteristic ''1e'' 40 \<noteq> example_characteristic ''0b'' 20"
  by (simp_all add: example_characteristic_def)

lemma example_two_turns: "waits two_turn_link (drone_sleeps example_mambo) = [Timeout, Timeout]"
  by (simp add: two_turn_link_def reliable_link_def)

section \<open>Sending with ack\<close>











section \<open>Direct flight clamps its arguments\<close>

lemma clamp_range:
  "-100 \<le> ensure_fly_command_in_range v \<and> ensure_fly_command_in_range v \<le> 100"
  by (simp add: ensure_fly_command_in_range_def)

lemma pack_b_clamp:
  "pack_b (ensure_fly_command_in_range v) = Inr [word_of_int (ensure_fly_command_in_range v)]"
  using clamp_range [of v] by (simp add: pack_b_def)

lemma sint_clamp:
  "sint (word_of_int (ensure_fly_command_in_range v) :: byte) = ensure_fly_command_in_range v"
proof -
  have "- (2 ^ 7) \<le> ensure_fly_command_in_range v" "ensure_fly_command_in_range v < 2 ^ 7"
    using clamp_range [of v] by simp_all
  then show ?thesis
    by (simp add: sint_sbintrunc' signed_take_bit_int_eq_self)
qed

lemma pcmd_frame_ok:
  assumes "characteristic_send_counter m ''SEND_NO_ACK'' = Some n"
    and "0 \<le> p" "p \<le> 255" "0 \<le> k" "k \<le> 255" "0 \<le> c" "c \<le> 255"
  shows "pcmd_frame (Some (p, k, c)) (ensure_fly_command_in_range roll)
           (ensure_fly_command_in_range pitch) (ensure_fly_command_in_range yaw)
           (ensure_fly_command_in_range vertical) m =
         (Inr [2, word_of_int (next_counter n), word_of_int p, word_of_int k, word_of_int c, 0, 1,
               word_of_int (ensure_fly_command_in_range roll),
               word_of_int (ensure_fly_command_in_range pitch),
               word_of_int (ensure_fly_command_in_range yaw),
               word_of_int (ensure_fly_command_in_range vertical),
               0, 0, 0, 0],
          m\<lparr>characteristic_send_counter :=
               (characteristic_send_counter m)(''SEND_NO_ACK'' \<mapsto> next_counter n)\<rparr>)"
  using assms
  by (simp add: pcmd_frame_def increment_counter_def pack_B_next pack_b_clamp pack_B_byte
      pack_I_def le_bytes_4_0 data_types_DATA_NO_ACK_def)

lemma clamp_max_min: "ensure_fly_command_in_range v = max (-100) (min 100 v)"
  by (simp add: ensure_fly_command_in_range_def)

lemma sequence_shift:
  "((n + 1) mod 256 + 1 + int i) mod 256 = (n + 1 + int (Suc i)) mod (256::int)"
proof -
  have a: "(n + 1) mod 256 + 1 + int i = (n + 1) mod 256 + (1 + int i)"
    by simp
  have b: "n + 1 + int (Suc i) = (n + 1) + (1 + int i)"
    by simp
  show ?thesis
    unfolding a b by (rule mod_add_left_eq)
qed

lemma fly_loop_frames:
  fixes F :: "int \<Rightarrow> nat \<Rightarrow> byte list"
  assumes up: "\<And>n. \<not> write_raises t n"
    and ids: "0 \<le> p" "p \<le> 255" "0 \<le> k" "k \<le> 255" "0 \<le> c" "c \<le> 255"
    and F: "\<And>n i. F n i =
       [2, word_of_int ((n + 1 + int i) mod 256), word_of_int p, word_of_int k, word_of_int c,
        0, 1,
        word_of_int (ensure_fly_command_in_range roll),
        word_of_int (ensure_fly_command_in_range pitch),
        word_of_int (ensure_fly_command_in_range yaw),
        word_of_int (ensure_fly_command_in_range vertical),
        0, 0, 0, 0]"
  shows "characteristic_send_counter m ''SEND_NO_ACK'' = Some n \<Longrightarrow>
    send_characteristics m ''SEND_NO_ACK'' = Some ch \<Longrightarrow>
    send_characteristics m ''ACK_COMMAND'' \<noteq> Some ch \<Longrightarrow>
    \<exists>r m' j. fly_loop t (Some (p, k, c)) (ensure_fly_command_in_range roll)
                (ensure_fly_command_in_range pitch) (ensure_fly_command_in_range yaw)
                (ensure_fly_command_in_range vertical) ws m = Some (r, m')
      \<and> j \<le> length ws
      \<and> (case r of Inl e \<Rightarrow> 0 < j | Inr u \<Rightarrow> j = length ws)
      \<and> writes_on ch (drone_written m') = writes_on ch (drone_written m) @ map (F n) [0..<j]"
proof (induction ws arbitrary: m n)
  case Nil
  then show ?case by simp
next
  case (Cons w ws)
  define m1 where "m1 = m\<lparr>characteristic_send_counter :=
      (characteristic_send_counter m)(''SEND_NO_ACK'' \<mapsto> next_counter n)\<rparr>"
  define m2 where "m2 = m1\<lparr>drone_writes := Suc (drone_writes m1),
      drone_written := drone_written m1 @ [Characteristic_write ch (F n 0)]\<rparr>"
  have fr: "pcmd_frame (Some (p, k, c)) (ensure_fly_command_in_range roll)
      (ensure_fly_command_in_range pitch) (ensure_fly_command_in_range yaw)
      (ensure_fly_command_in_range vertical) m = (Inr (F n 0), m1)"
    using pcmd_frame_ok [OF Cons.prems(1) ids] by (simp add: F m1_def next_counter_def)
  have c1: "send_characteristics m1 ''SEND_NO_ACK'' = Some ch"
    using Cons.prems(2) by (simp add: m1_def)
  have wr: "safe_ble_write t ch (F n 0) m1 = Some (Inr (), m2)"
    using up by (simp add: safe_ble_write_ok m2_def)
  have m2: "send_characteristics m2 = send_characteristics m"
    "characteristic_send_counter m2 ''SEND_NO_ACK'' = Some (next_counter n)"
    "writes_on ch (drone_written m2) = writes_on ch (drone_written m) @ [F n 0]"
    by (simp_all add: m2_def m1_def writes_on_append)
  have "send_characteristics m2 ''ACK_COMMAND'' \<noteq> Some ch"
    using Cons.prems(3) by (simp add: m2(1))
  from waitForNotifications_up [OF up this, of w]
  obtain r3 m3 where wt: "waitForNotifications t w m2 = Some (r3, m3)"
    and u: "undisturbed ch m2 m3"
    by blast
  have m3: "send_characteristics m3 = send_characteristics m"
    "characteristic_send_counter m3 ''SEND_NO_ACK'' = Some (next_counter n)"
    "writes_on ch (drone_written m3) = writes_on ch (drone_written m) @ [F n 0]"
    using u m2 by (simp_all add: undisturbed_def)
  show ?case
  proof (cases r3)
    case (Inl e)
    have "fly_loop t (Some (p, k, c)) (ensure_fly_command_in_range roll)
        (ensure_fly_command_in_range pitch) (ensure_fly_command_in_range yaw)
        (ensure_fly_command_in_range vertical) (w # ws) m = Some (Inl e, m3)"
      using fr c1 wr wt Inl by simp
    moreover have "writes_on ch (drone_written m3)
        = writes_on ch (drone_written m) @ map (F n) [0..<1]"
      using m3(3) by simp
    ultimately show ?thesis
      by (intro exI [of _ "Inl e"] exI [of _ m3] exI [of _ 1]) simp
  next
    case (Inr u')
    have step: "fly_loop t (Some (p, k, c)) (ensure_fly_command_in_range roll)
        (ensure_fly_command_in_range pitch) (ensure_fly_command_in_range yaw)
        (ensure_fly_command_in_range vertical) (w # ws) m
      = fly_loop t (Some (p, k, c)) (ensure_fly_command_in_range roll)
        (ensure_fly_command_in_range pitch) (ensure_fly_command_in_range yaw)
        (ensure_fly_command_in_range vertical) ws m3"
      using fr c1 wr wt Inr by simp
    have c3: "send_characteristics m3 ''SEND_NO_ACK'' = Some ch"
      "send_characteristics m3 ''ACK_COMMAND'' \<noteq> Some ch"
      using Cons.prems(2,3) by (simp_all add: m3(1))
    from Cons.IH [OF m3(2) c3]
    obtain r m' j where res: "fly_loop t (Some (p, k, c)) (ensure_fly_command_in_range roll)
        (ensure_fly_command_in_range pitch) (ensure_fly_command_in_range yaw)
        (ensure_fly_command_in_range vertical) ws m3 = Some (r, m')"
      and j: "j \<le> length ws" "case r of Inl e \<Rightarrow> 0 < j | Inr u \<Rightarrow> j = length ws"
      and wo: "writes_on ch (drone_written m')
        = writes_on ch (drone_written m3) @ map (F (next_counter n)) [0..<j]"
      by blast
    have shift: "F (next_counter n) i = F n (Suc i)" for i
      by (simp only: F next_counter_def sequence_shift)
    have "[0..<Suc j] = 0 # [Suc 0..<Suc j]"
      by (rule upt_conv_Cons) simp
    also have "[Suc 0..<Suc j] = map Suc [0..<j]"
      by (rule map_Suc_upt [symmetric])
    finally have "map (F n) [0..<Suc j] = F n 0 # map (\<lambda>i. F n (Suc i)) [0..<j]"
      by (simp add: comp_def del: upt_Suc)
    moreover have "F (next_counter n) = (\<lambda>i. F n (Suc i))"
      by (rule ext) (rule shift)
    ultimately have "map (F n) [0..<Suc j] = F n 0 # map (F (next_counter n)) [0..<j]"
      by (simp only:)
    then have "writes_on ch (drone_written m')
        = writes_on ch (drone_written m) @ map (F n) [0..<Suc j]"
      using wo m3(3) by simp
    moreover have "Suc j \<le> length (w # ws)"
      using j(1) by simp
    moreover have "case r of Inl e \<Rightarrow> 0 < Suc j | Inr u \<Rightarrow> Suc j = length (w # ws)"
      using j(2) by (cases r) simp_all
    ultimately show ?thesis
      using step res by (intro exI [of _ r] exI [of _ m'] exI [of _ "Suc j"]) simp
  qed
qed

text \<open>
  Claim C4. \<open>fly_direct\<close> clamps each of roll, pitch, yaw and vertical movement to
  \<open>[-100, 100]\<close> before encoding: a value in the range is kept, a value below it becomes
  -100 and a value above it becomes 100 (\<open>max (-100) (min 100 v)\<close>), so 150 becomes 100,
  -150 becomes -100 and 37 stays 37; the clamped value fits the signed byte that carries it,
  and no integer is rejected. On a link whose writes never raise, when the command \<open>PCMD\<close>
  resolves to byte identifiers, a flight of any number of turns, whatever its waits
  deliver, writes on the characteristic of \<open>SEND_NO_ACK\<close> one frame for each turn it
  makes (all of them unless a wait raises): type 2, the counter incremented once more
  for each frame, the three identifiers, 0, the flag 1, the four clamped values, and
  four zero bytes.
\<close>

theorem fly_direct_frames_clamped:
  assumes "\<forall>n. \<not> write_raises t n"
    and "get_command_tuple ''Piloting'' ''PCMD'' m = (Inr (Some (p, k, c)), m1)"
    and "0 \<le> p" "p \<le> 255" "0 \<le> k" "k \<le> 255" "0 \<le> c" "c \<le> 255"
    and "characteristic_send_counter m ''SEND_NO_ACK'' = Some n"
    and "send_characteristics m ''SEND_NO_ACK'' = Some ch"
    and "send_characteristics m ''ACK_COMMAND'' \<noteq> Some ch"
  shows "(\<forall>v. ensure_fly_command_in_range v = max (-100) (min 100 v)
            \<and> sint (word_of_int (ensure_fly_command_in_range v) :: byte) = max (-100) (min 100 v))
       \<and> ensure_fly_command_in_range 150 = 100
       \<and> ensure_fly_command_in_range (-150) = -100
       \<and> ensure_fly_command_in_range 37 = 37
       \<and> (\<exists>r m' j. fly_direct t roll pitch yaw vertical m = Some (r, m')
              \<and> j \<le> length (waits t (drone_sleeps m))
              \<and> (case r of Inl e \<Rightarrow> 0 < j | Inr u \<Rightarrow> j = length (waits t (drone_sleeps m)))
              \<and> writes_on ch (drone_written m') = writes_on ch (drone_written m) @
                  map (\<lambda>i. [2, word_of_int ((n + 1 + int i) mod 256),
                            word_of_int p, word_of_int k, word_of_int c, 0, 1,
                            word_of_int (max (-100) (min 100 roll)),
                            word_of_int (max (-100) (min 100 pitch)),
                            word_of_int (max (-100) (min 100 yaw)),
                            word_of_int (max (-100) (min 100 vertical)),
                            0, 0, 0, 0])
                      [0..<j])"
proof -
  have cl: "\<forall>v. ensure_fly_command_in_range v = max (-100) (min 100 v)
            \<and> sint (word_of_int (ensure_fly_command_in_range v) :: byte) = max (-100) (min 100 v)"
    using sint_clamp by (simp add: clamp_max_min)
  have ex: "ensure_fly_command_in_range 150 = 100" "ensure_fly_command_in_range (-150) = -100"
    "ensure_fly_command_in_range 37 = 37"
    by (simp_all add: ensure_fly_command_in_range_def)
  note g = get_command_tuple_fields [OF assms(2)]
  define m2 where "m2 = m1\<lparr>drone_sleeps := Suc (drone_sleeps m1)\<rparr>"
  have m2: "characteristic_send_counter m2 ''SEND_NO_ACK'' = Some n"
    "send_characteristics m2 ''SEND_NO_ACK'' = Some ch"
    "send_characteristics m2 ''ACK_COMMAND'' \<noteq> Some ch"
    "drone_written m2 = drone_written m"
    using assms(9-11) by (simp_all add: m2_def g)
  have up: "\<And>n. \<not> write_raises t n"
    using assms(1) by simp
  define F :: "int \<Rightarrow> nat \<Rightarrow> byte list" where
    "F = (\<lambda>n i. [2, word_of_int ((n + 1 + int i) mod 256),
                  word_of_int p, word_of_int k, word_of_int c, 0, 1,
                  word_of_int (ensure_fly_command_in_range roll),
                  word_of_int (ensure_fly_command_in_range pitch),
                  word_of_int (ensure_fly_command_in_range yaw),
                  word_of_int (ensure_fly_command_in_range vertical),
                  0, 0, 0, 0])"
  have fd: "fly_direct t roll pitch yaw vertical m =
        fly_loop t (Some (p, k, c)) (ensure_fly_command_in_range roll)
          (ensure_fly_command_in_range pitch) (ensure_fly_command_in_range yaw)
          (ensure_fly_command_in_range vertical) (waits t (drone_sleeps m)) m2"
    using assms(2) by (simp add: fly_direct_def m2_def Let_def g del: fly_loop.simps)
  from fly_loop_frames [OF up assms(3-8) _ m2(1-3), of F roll pitch yaw vertical
      "waits t (drone_sleeps m)"]
  obtain r m' j where "fly_loop t (Some (p, k, c)) (ensure_fly_command_in_range roll)
          (ensure_fly_command_in_range pitch) (ensure_fly_command_in_range yaw)
          (ensure_fly_command_in_range vertical) (waits t (drone_sleeps m)) m2 = Some (r, m')"
    "j \<le> length (waits t (drone_sleeps m))"
    "case r of Inl e \<Rightarrow> 0 < j | Inr u \<Rightarrow> j = length (waits t (drone_sleeps m))"
    "writes_on ch (drone_written m') = writes_on ch (drone_written m2) @ map (F n) [0..<j]"
    by (auto simp: F_def)
  then have "\<exists>r m' j. fly_direct t roll pitch yaw vertical m = Some (r, m')
              \<and> j \<le> length (waits t (drone_sleeps m))
              \<and> (case r of Inl e \<Rightarrow> 0 < j | Inr u \<Rightarrow> j = length (waits t (drone_sleeps m)))
              \<and> writes_on ch (drone_written m') = writes_on ch (drone_written m) @
                  map (\<lambda>i. [2, word_of_int ((n + 1 + int i) mod 256),
                            word_of_int p, word_of_int k, word_of_int c, 0, 1,
                            word_of_int (max (-100) (min 100 roll)),
                            word_of_int (max (-100) (min 100 pitch)),
                            word_of_int (max (-100) (min 100 yaw)),
                            word_of_int (max (-100) (min 100 vertical)),
                            0, 0, 0, 0])
                      [0..<j]"
    unfolding fd m2(4) F_def clamp_max_min by blast
  with cl ex show ?thesis
    by blast
qed

theorem fly_direct_frames_clamped_witness:
  "(\<forall>n. \<not> write_raises two_turn_link n)
   \<and> get_command_tuple ''Piloting'' ''PCMD'' example_mambo =
     (Inr (Some (2, 0, 2)),
      example_mambo\<lparr>command_tuple_cache := [(''Piloting'', ''PCMD'') \<mapsto> (2, 0, 2)]\<rparr>)
   \<and> characteristic_send_counter example_mambo ''SEND_NO_ACK'' = Some 0
   \<and> send_characteristics example_mambo ''SEND_NO_ACK'' = Some (example_characteristic ''0a'' 10)
   \<and> send_characteristics example_mambo ''ACK_COMMAND'' \<noteq> Some (example_characteristic ''0a'' 10)
   \<and> waits two_turn_link (drone_sleeps example_mambo) = [Timeout, Timeout]
   \<and> (\<exists>r m' j. fly_direct two_turn_link 150 (-150) 37 0 example_mambo = Some (r, m')
          \<and> j \<le> 2
          \<and> (case r of Inl e \<Rightarrow> 0 < j | Inr u \<Rightarrow> j = 2)
          \<and> writes_on (example_characteristic ''0a'' 10) (drone_written m') =
              map (\<lambda>i. [2, word_of_int ((1 + int i) mod 256), 2, 0, 2, 0, 1, 100, - 100, 37, 0,
                        0, 0, 0, 0])
                [0..<j])"
proof -
  have up: "\<forall>n. \<not> write_raises two_turn_link n"
    by (simp add: two_turn_link_def example_link_up)
  have a: "send_characteristics example_mambo ''ACK_COMMAND''
      \<noteq> Some (example_characteristic ''0a'' 10)"
    by (simp add: example_send_characteristics example_characteristics_differ)
  have w: "drone_written example_mambo = []"
    by (simp add: example_mambo_def Mambo_init_def)
  have b: "(0::int) \<le> 2" "(2::int) \<le> 255" "(0::int) \<le> 0" "(0::int) \<le> 255"
    by simp_all
  show ?thesis
    using fly_direct_frames_clamped [OF up example_pcmd b(1) b(2) b(3) b(4) b(1) b(2)
        example_counters(2) example_send_characteristics(1) a, of 150 "-150" 37 0]
    by (simp add: up example_pcmd example_counters example_send_characteristics
        example_characteristics_differ example_two_turns w numeral_2_eq_2
        cong: sum.case_cong)
qed

section \<open>A flip in an invalid direction\<close>

text \<open>
  For every string that is not one of the four directions the format of the error
  message, which has two conversions, is applied to one value.
\<close>

lemma flip_invalid_direction:
  "direction \<notin> set [''front'', ''back'', ''right'', ''left''] \<Longrightarrow>
   flip t direction m = Some (Inl TypeError, m)"
  by (simp add: flip_def)

text \<open>
  Claim C10. Calling \<open>flip\<close> with a direction outside front, back, right, left sends no
  packet and leaves every channel counter and every ack flag unchanged, and it should
  return \<^verbatim>\<open>None\<close>. At the direction \<^verbatim>\<open>"up"\<close> the state is indeed unchanged, but the
  call does not return: the \<^verbatim>\<open>print\<close> statement that reports the error raises
  \<^verbatim>\<open>TypeError\<close>.
\<close>

theorem flip_up_raises: "flip t ''up'' m = Some (Inl TypeError, m)"
  by (simp add: flip_def)

section \<open>Enum-typed sensors\<close>

lemma update_enum_in_range:
  "sensor_enum name = Some names \<Longrightarrow> i < length names \<Longrightarrow>
   update name (PInt (int i)) sensor_enum s = Inr (store_sensor name (PStr (names ! i)) s)"
  by (simp add: update_def enum_translate_def)

lemma update_enum_beyond:
  "sensor_enum name = Some names \<Longrightarrow> int (length names) < i \<Longrightarrow>
   update name (PInt i) sensor_enum s = Inr (store_sensor name (PStr ''UNKNOWN_ENUM_VALUE'') s)"
  by (simp add: update_def enum_translate_def)

lemma update_enum_at_length:
  "sensor_enum name = Some names \<Longrightarrow>
   update name (PInt (int (length names))) sensor_enum s = Inl IndexError"
  by (simp add: update_def enum_translate_def)

lemma example_flying_state:
  "parse_sensor_tuple (2, 5, 2, 3, 1, 0) example_mambo =
     (Inr (Some ([''FlyingStateChanged_state''], [Some ''enum''])),
      example_mambo
        \<lparr>sensor_tuple_cache_enum :=
           [''FlyingStateChanged_state'' \<mapsto>
              [''landed'', ''takingoff'', ''hovering'', ''flying'', ''landing'',
               ''emergency'', ''rolling'', ''init'']],
         sensor_tuple_cache :=
           [(2, 3, 1, 0) \<mapsto> Some ([''FlyingStateChanged_state''], [Some ''enum''])]\<rparr>)"
  by (simp add: parse_sensor_tuple_def search_sensor_project_def cache_sensor_fields_def
      sensor_fields_def example_mambo_def Mambo_init_def example_minidrone_def Let_def)

lemma unpack_header_example: "unpack_header [2, 5, 2, 3, 1, 0, 8] = Inr (2, 5, 2, 3, 1, 0)"
  by (simp add: unpack_header_def unpack_from_def)

text \<open>
  Claim C3. For an enum-typed sensor field, an index in range stores the member name at
  that position (\<open>update_enum_in_range\<close>) and an index greater than the length of the
  member list stores \<^verbatim>\<open>"UNKNOWN_ENUM_VALUE"\<close> (\<open>update_enum_beyond\<close>); no out-of-range
  index should fail. The index equal to the length does fail: the guard is
  \<^verbatim>\<open>value > len(...)\<close>, so the list is indexed one past its end and \<^verbatim>\<open>IndexError\<close>
  is raised. Below, first in \<open>update\<close> itself with three members and the index 3, then
  for a frame of \<open>FlyingStateChanged\<close> with the index 8 where the dictionary declares
  eight members.
\<close>

theorem enum_index_at_length_raises:
  "update ''FlyingStateChanged_state'' (PInt 3)
      [''FlyingStateChanged_state'' \<mapsto> [''landed'', ''takingoff'', ''hovering'']]
      MamboSensors_init = Inl IndexError
   \<and> update_sensors t [2, 5, 2, 3, 1, 0, 8] False example_mambo =
      Some (Inl IndexError,
        example_mambo
          \<lparr>sensor_tuple_cache_enum :=
             [''FlyingStateChanged_state'' \<mapsto>
                [''landed'', ''takingoff'', ''hovering'', ''flying'', ''landing'',
                 ''emergency'', ''rolling'', ''init'']],
           sensor_tuple_cache :=
             [(2, 3, 1, 0) \<mapsto> Some ([''FlyingStateChanged_state''], [Some ''enum''])]\<rparr>)"
  by (simp add: update_def enum_translate_def update_sensors_def unpack_header_example
      example_flying_state decode_sensor_def unpack_at_6_def unpack_from_def)

section \<open>Caches\<close>

lemma get_command_tuple_found:
  "get_command_tuple myclass cmd m = (Inr (Some r), m') \<Longrightarrow>
   command_tuple_cache m' (myclass, cmd) = Some r"
  by (auto simp: get_command_tuple_def split: option.splits sum.splits)

lemma get_command_tuple_with_enum_found:
  "get_command_tuple_with_enum myclass cmd enum_name m = (Inr (Some r), m') \<Longrightarrow>
   command_tuple_cache_enum m' (myclass, cmd, enum_name) = Some r"
  by (auto simp: get_command_tuple_with_enum_def split: option.splits sum.splits)

lemma parse_sensor_tuple_cached:
  "parse_sensor_tuple (ack_id, packet_id, project_id, myclass_id, cmd_id, extra_id) m = (Inr r, m') \<Longrightarrow>
   sensor_tuple_cache m' (project_id, myclass_id, cmd_id, extra_id) = Some r"
  by (auto simp: parse_sensor_tuple_def cache_sensor_fields_def split: option.splits sum.splits prod.splits)

lemma get_command_tuple_not_found:
  "get_command_tuple myclass cmd m = (Inr None, m') \<Longrightarrow> m' = m"
  by (auto simp: get_command_tuple_def split: option.splits sum.splits)

lemma get_command_tuple_with_enum_not_found:
  "get_command_tuple_with_enum myclass cmd enum_name m = (Inr None, m') \<Longrightarrow> m' = m"
  by (auto simp: get_command_tuple_with_enum_def split: option.splits sum.splits)

text \<open>
  Claim C6, as amended. A name found is cached: after \<open>get_command_tuple\<close> or
  \<open>get_command_tuple_with_enum\<close> has returned a result, a second call returns the same
  result and the same state whatever the dictionaries then hold, so it does not consult
  them. For a header 4-tuple this holds for every result of \<open>parse_sensor_tuple\<close>, found
  or not found, and for every type and sequence byte in front of the 4-tuple. A name
  that is not found leaves the state, and so the cache, as it was.
\<close>

theorem resolution_cached:
  "(get_command_tuple myclass cmd m = (Inr (Some r), m') \<longrightarrow>
      get_command_tuple myclass cmd (m'\<lparr>minidrone_commands := da, common_commands := db\<rparr>)
        = (Inr (Some r), m'\<lparr>minidrone_commands := da, common_commands := db\<rparr>))
   \<and> (get_command_tuple_with_enum myclass cmd enum_name m = (Inr (Some re), me) \<longrightarrow>
      get_command_tuple_with_enum myclass cmd enum_name
          (me\<lparr>minidrone_commands := da, common_commands := db\<rparr>)
        = (Inr (Some re), me\<lparr>minidrone_commands := da, common_commands := db\<rparr>))
   \<and> (parse_sensor_tuple (ack_id, packet_id, project_id, myclass_id, cmd_id, extra_id) m
        = (Inr rs, ms) \<longrightarrow>
      parse_sensor_tuple (ack_id', packet_id', project_id, myclass_id, cmd_id, extra_id)
          (ms\<lparr>minidrone_commands := da, common_commands := db\<rparr>)
        = (Inr rs, ms\<lparr>minidrone_commands := da, common_commands := db\<rparr>))
   \<and> (get_command_tuple myclass cmd m = (Inr None, m') \<longrightarrow> m' = m)
   \<and> (get_command_tuple_with_enum myclass cmd enum_name m = (Inr None, me) \<longrightarrow> me = m)"
proof (intro conjI impI)
  assume "get_command_tuple myclass cmd m = (Inr (Some r), m')"
  then show "get_command_tuple myclass cmd (m'\<lparr>minidrone_commands := da, common_commands := db\<rparr>)
        = (Inr (Some r), m'\<lparr>minidrone_commands := da, common_commands := db\<rparr>)"
    by (simp add: get_command_tuple_def [of _ _ "m'\<lparr>minidrone_commands := da, common_commands := db\<rparr>"]
        get_command_tuple_found)
next
  assume "get_command_tuple_with_enum myclass cmd enum_name m = (Inr (Some re), me)"
  then show "get_command_tuple_with_enum myclass cmd enum_name
          (me\<lparr>minidrone_commands := da, common_commands := db\<rparr>)
        = (Inr (Some re), me\<lparr>minidrone_commands := da, common_commands := db\<rparr>)"
    by (simp add: get_command_tuple_with_enum_def [of _ _ _ "me\<lparr>minidrone_commands := da, common_commands := db\<rparr>"]
        get_command_tuple_with_enum_found)
next
  assume "parse_sensor_tuple (ack_id, packet_id, project_id, myclass_id, cmd_id, extra_id) m
        = (Inr rs, ms)"
  then show "parse_sensor_tuple (ack_id', packet_id', project_id, myclass_id, cmd_id, extra_id)
          (ms\<lparr>minidrone_commands := da, common_commands := db\<rparr>)
        = (Inr rs, ms\<lparr>minidrone_commands := da, common_commands := db\<rparr>)"
    by (simp add: parse_sensor_tuple_def [of _ "ms\<lparr>minidrone_commands := da, common_commands := db\<rparr>"]
        parse_sensor_tuple_cached)
next
  assume "get_command_tuple myclass cmd m = (Inr None, m')"
  then show "m' = m" by (rule get_command_tuple_not_found)
next
  assume "get_command_tuple_with_enum myclass cmd enum_name m = (Inr None, me)"
  then show "me = m" by (rule get_command_tuple_with_enum_not_found)
qed

text \<open>
  Claim C6 as stated fails for names that are not found: the first call returns
  \<^verbatim>\<open>None\<close> and leaves the state unchanged, and the same call on that state with a
  dictionary that has the name answers from the dictionary.
\<close>

theorem not_found_name_not_cached:
  "get_command_tuple ''Piloting'' ''Emergency'' example_mambo = (Inr None, example_mambo)
   \<and> fst (get_command_tuple ''Piloting'' ''Emergency''
        (example_mambo\<lparr>common_commands :=
           \<lparr>p_id = 0, p_myclass =
              [\<lparr>k_id = 0, k_name = ''Piloting'', k_cmd =
                  [\<lparr>c_id = 4, c_name = ''Emergency'', c_arg = []\<rparr>]\<rparr>]\<rparr>\<rparr>))
       = Inr (Some (0, 0, 4))"
  by (simp add: get_command_tuple_def search_project_def example_mambo_def Mambo_init_def
      example_minidrone_def example_common_def)

subsection \<open>The caches on the example session\<close>

lemma example_takeoff:
  "get_command_tuple ''Piloting'' ''TakeOff'' example_mambo =
     (Inr (Some (2, 0, 1)),
      example_mambo\<lparr>command_tuple_cache := [(''Piloting'', ''TakeOff'') \<mapsto> (2, 0, 1)]\<rparr>)"
  by (simp add: get_command_tuple_def search_project_def example_mambo_def Mambo_init_def
      example_minidrone_def)

lemma example_flip_left:
  "get_command_tuple_with_enum ''Animations'' ''Flip'' ''left'' example_mambo =
     (Inr (Some ((2, 4, 0), 3)),
      example_mambo\<lparr>command_tuple_cache_enum :=
        [(''Animations'', ''Flip'', ''left'') \<mapsto> ((2, 4, 0), 3)]\<rparr>)"
  by (simp add: get_command_tuple_with_enum_def search_project_enum_def example_mambo_def
      Mambo_init_def example_minidrone_def numeral_3_eq_3)

lemma example_unknown_tuple:
  "parse_sensor_tuple (2, 5, 9, 9, 9, 0) example_mambo =
     (Inr None, example_mambo\<lparr>sensor_tuple_cache := [(9, 9, 9, 0) \<mapsto> None]\<rparr>)"
  by (simp add: parse_sensor_tuple_def search_sensor_project_def example_mambo_def
      Mambo_init_def example_minidrone_def example_common_def)

lemma example_emergency:
  "get_command_tuple ''Piloting'' ''Emergency'' example_mambo = (Inr None, example_mambo)"
  by (simp add: get_command_tuple_def search_project_def example_mambo_def Mambo_init_def
      example_minidrone_def example_common_def)

theorem resolution_cached_witness:
  "get_command_tuple ''Piloting'' ''TakeOff'' example_mambo =
     (Inr (Some (2, 0, 1)),
      example_mambo\<lparr>command_tuple_cache := [(''Piloting'', ''TakeOff'') \<mapsto> (2, 0, 1)]\<rparr>)
   \<and> get_command_tuple ''Piloting'' ''TakeOff''
        (example_mambo\<lparr>command_tuple_cache := [(''Piloting'', ''TakeOff'') \<mapsto> (2, 0, 1)],
                       minidrone_commands := example_common, common_commands := example_common\<rparr>)
      = (Inr (Some (2, 0, 1)),
         example_mambo\<lparr>command_tuple_cache := [(''Piloting'', ''TakeOff'') \<mapsto> (2, 0, 1)],
                       minidrone_commands := example_common, common_commands := example_common\<rparr>)
   \<and> get_command_tuple_with_enum ''Animations'' ''Flip'' ''left'' example_mambo =
     (Inr (Some ((2, 4, 0), 3)),
      example_mambo\<lparr>command_tuple_cache_enum :=
        [(''Animations'', ''Flip'', ''left'') \<mapsto> ((2, 4, 0), 3)]\<rparr>)
   \<and> get_command_tuple_with_enum ''Animations'' ''Flip'' ''left''
        (example_mambo\<lparr>command_tuple_cache_enum :=
             [(''Animations'', ''Flip'', ''left'') \<mapsto> ((2, 4, 0), 3)],
           minidrone_commands := example_common, common_commands := example_common\<rparr>)
      = (Inr (Some ((2, 4, 0), 3)),
         example_mambo\<lparr>command_tuple_cache_enum :=
             [(''Animations'', ''Flip'', ''left'') \<mapsto> ((2, 4, 0), 3)],
           minidrone_commands := example_common, common_commands := example_common\<rparr>)
   \<and> parse_sensor_tuple (2, 5, 9, 9, 9, 0) example_mambo =
     (Inr None, example_mambo\<lparr>sensor_tuple_cache := [(9, 9, 9, 0) \<mapsto> None]\<rparr>)
   \<and> parse_sensor_tuple (4, 6, 9, 9, 9, 0)
        (example_mambo\<lparr>sensor_tuple_cache := [(9, 9, 9, 0) \<mapsto> None],
           minidrone_commands := example_common, common_commands := example_common\<rparr>)
      = (Inr None,
         example_mambo\<lparr>sensor_tuple_cache := [(9, 9, 9, 0) \<mapsto> None],
           minidrone_commands := example_common, common_commands := example_common\<rparr>)
   \<and> get_command_tuple ''Piloting'' ''Emergency'' example_mambo = (Inr None, example_mambo)"
  using resolution_cached [where m = example_mambo and myclass = "''Piloting''"
      and cmd = "''TakeOff''" and r = "(2, 0, 1)"
      and m' = "example_mambo\<lparr>command_tuple_cache := [(''Piloting'', ''TakeOff'') \<mapsto> (2, 0, 1)]\<rparr>"
      and enum_name = "''left''" and re = "((2, 4, 0), 3)"
      and me = "example_mambo\<lparr>command_tuple_cache_enum :=
        [(''Animations'', ''Flip'', ''left'') \<mapsto> ((2, 4, 0), 3)]\<rparr>"
      and da = example_common and db = example_common
      and ack_id = 2 and packet_id = 5 and project_id = 9 and myclass_id = 9 and cmd_id = 9
      and extra_id = 0 and rs = None and ack_id' = 4 and packet_id' = 6
      and ms = "example_mambo\<lparr>sensor_tuple_cache := [(9, 9, 9, 0) \<mapsto> None]\<rparr>"]
    resolution_cached [where m = example_mambo and myclass = "''Animations''"
      and cmd = "''Flip''" and enum_name = "''left''" and re = "((2, 4, 0), 3)"
      and me = "example_mambo\<lparr>command_tuple_cache_enum :=
        [(''Animations'', ''Flip'', ''left'') \<mapsto> ((2, 4, 0), 3)]\<rparr>"
      and da = example_common and db = example_common]
    example_takeoff example_flip_left example_unknown_tuple example_emergency
  by simp

section \<open>Connection retries\<close>

text \<open>
  Claim C9. \<open>connect(num_retries)\<close> and \<open>_reconnect(num_retries)\<close> should make up to
  \<open>num_retries\<close> attempts and give up only after the whole budget. Both loops start
  \<open>try_num\<close> at 1 and run while \<open>try_num < num_retries\<close>: on a link that refuses every
  connection, a budget of 3 ends after 2 attempts, and with a budget of 1 no attempt is
  made at all, even on a link that would accept the connection.
\<close>

theorem connect_gives_up_early:
  "connect dead_link 3 example_mambo = Some (Inr False, example_mambo\<lparr>drone_connects := 2\<rparr>)
   \<and> reconnect dead_link 3 example_mambo = (Inr False, example_mambo\<lparr>drone_connects := 2\<rparr>)
   \<and> connect quiet_link 1 example_mambo = Some (Inr False, example_mambo)
   \<and> reconnect quiet_link 1 example_mambo = (Inr False, example_mambo)"
  by (simp add: connect_def reconnect_def connect_once_def drone_connect_def dead_link_def
      quiet_link_def reliable_link_def example_mambo_def Mambo_init_def)

section \<open>Short frames\<close>

lemma unpack_header_short: "length data < 6 \<Longrightarrow> unpack_header data = Inl StructError"
  by (simp add: unpack_header_def unpack_from_def)

text \<open>
  Claim C7, as amended. Decoding an inbound frame with fewer than 6 bytes fails with
  \<^verbatim>\<open>struct.error\<close> before anything is decoded: the state of the client is unchanged
  and no ack is written. Nothing in \<open>update_sensors\<close> or \<open>handleNotification\<close> handles the
  error: for a notification on a data channel it comes out of \<open>waitForNotifications\<close>.
\<close>

theorem short_frame_raises:
  assumes "length data < 6"
  shows "update_sensors t data ack m = Some (Inl StructError, m)
       \<and> (delegate m = Some handle_map
            \<and> (handle_map cHandle = Some ''0e'' \<or> handle_map cHandle = Some ''0f'')
          \<longrightarrow> waitForNotifications t (Notification cHandle data) m = Some (Inl StructError, m))"
  using assms
  by (auto simp: update_sensors_def unpack_header_short waitForNotifications_def
      handleNotification_def characteristic_receive_uuids_def)

theorem short_frame_raises_witness:
  "length [1, 2, 3 :: byte] < 6
   \<and> delegate example_mambo = Some [51 \<mapsto> ''0e'', 61 \<mapsto> ''0f'', 71 \<mapsto> ''1b'', 81 \<mapsto> ''1c'']
   \<and> [51 \<mapsto> ''0e'', 61 \<mapsto> ''0f'', 71 \<mapsto> ''1b'', 81 \<mapsto> ''1c''] (51::nat) = Some ''0e''
   \<and> update_sensors quiet_link [1, 2, 3] True example_mambo = Some (Inl StructError, example_mambo)
   \<and> waitForNotifications quiet_link (Notification 51 [1, 2, 3]) example_mambo
        = Some (Inl StructError, example_mambo)"
proof -
  have l: "length [1, 2, 3 :: byte] < 6"
    by simp
  have d: "delegate example_mambo = Some [51 \<mapsto> ''0e'', 61 \<mapsto> ''0f'', 71 \<mapsto> ''1b'', 81 \<mapsto> ''1c'']"
    by (simp add: example_mambo_def)
  show ?thesis
    using short_frame_raises [OF l, of quiet_link True example_mambo
        "[51 \<mapsto> ''0e'', 61 \<mapsto> ''0f'', 71 \<mapsto> ''1b'', 81 \<mapsto> ''1c'']" 51] d
    by simp
qed

text \<open>
  Claim C7 as stated fails: a frame of three bytes that arrives during \<open>fly_direct\<close>
  makes \<open>fly_direct\<close> itself raise \<^verbatim>\<open>struct.error\<close> to its caller.
\<close>

theorem short_frame_reaches_caller:
  "map_option fst (fly_direct short_frame_link 0 0 0 0 example_mambo) = Some (Inl StructError)"
proof -
  have "get_command_tuple ''Piloting'' ''PCMD'' example_mambo =
     (Inr (Some (2, 0, 2)),
      example_mambo\<lparr>command_tuple_cache := [(''Piloting'', ''PCMD'') \<mapsto> (2, 0, 2)]\<rparr>)"
    by (simp add: get_command_tuple_def search_project_def example_mambo_def Mambo_init_def
      example_minidrone_def)
  then show ?thesis
    by (simp add: fly_direct_def Let_def short_frame_link_def reliable_link_def pcmd_frame_def
        increment_counter_def example_mambo_def Mambo_init_def next_counter_def pack_B_def
        pack_b_def pack_I_def data_types_DATA_NO_ACK_def eval_nat_numeral
        safe_ble_write.simps drone_write_def waitForNotifications_def handleNotification_def
        characteristic_receive_uuids_def update_sensors_def unpack_header_short)
qed

section \<open>Commands with several fields\<close>

lemma example_claw_state:
  "parse_sensor_tuple (2, 5, 2, 15, 1, 0) example_mambo =
     (Inr (Some ([''ClawState_id'', ''ClawState_state'', ''ClawState_list_flags''],
                 [Some ''u8'', Some ''enum'', Some ''u8''])),
      example_mambo
        \<lparr>sensor_tuple_cache_enum :=
           [''ClawState_state'' \<mapsto> [''OPENED'', ''OPENING'', ''CLOSED'', ''CLOSING'']],
         sensor_tuple_cache :=
           [(2, 15, 1, 0) \<mapsto>
              Some ([''ClawState_id'', ''ClawState_state'', ''ClawState_list_flags''],
                    [Some ''u8'', Some ''enum'', Some ''u8''])]\<rparr>)"
  by (simp add: parse_sensor_tuple_def search_sensor_project_def cache_sensor_fields_def
      sensor_fields_def example_mambo_def Mambo_init_def example_minidrone_def Let_def)

lemma claw_decode:
  "decode_sensor (Some ''u8'') claw_frame = Inr (PInt 1)"
  "decode_sensor (Some ''enum'') claw_frame = Inr (PInt 1)"
  by (simp_all add: decode_sensor_def unpack_at_6_def unpack_from_def claw_frame_def)

lemma claw_later_bytes_unread:
  "map_option (claw_state \<circ> sensors \<circ> snd)
     (update_sensors t [2, 5, 2, 15, 1, 0, 1, state, list_flags] False example_mambo)
   = Some (PStr ''OPENING'')"
proof -
  have h: "unpack_header [2, 5, 2, 15, 1, 0, 1, state, list_flags] = Inr (2, 5, 2, 15, 1, 0)"
    by (simp add: unpack_header_def unpack_from_def)
  have d: "decode_sensor (Some ''u8'') [2, 5, 2, 15, 1, 0, 1, state, list_flags] = Inr (PInt 1)"
    "decode_sensor (Some ''enum'') [2, 5, 2, 15, 1, 0, 1, state, list_flags] = Inr (PInt 1)"
    by (simp_all add: decode_sensor_def unpack_at_6_def unpack_from_def)
  show ?thesis
    by (simp add: update_sensors_def h example_claw_state d update_def enum_translate_def
        store_sensor_def)
qed

text \<open>
  Claim C8. For a telemetry command that declares several arguments only the first
  declared field should be decoded, the remaining ones not. The loop of
  \<open>update_sensors\<close> visits every declared field and unpacks each at offset 6: for the
  frame of \<open>ClawState\<close> with \<open>id = 1\<close>, \<open>state = 2\<close>, \<open>list_flags = 0\<close> it sets \<open>claw_id\<close> to 1
  and also \<open>claw_state\<close>, the second declared field, which was \<^verbatim>\<open>None\<close>: to member 1 of
  the enum, \<^verbatim>\<open>"OPENING"\<close>, decoded from the byte of \<open>id\<close>. The state byte of the frame is
  never read: with other bytes after the first value the result is the same.
\<close>

theorem later_fields_decoded_from_first_value:
  "claw_frame = [2, 5, 2, 15, 1, 0, 1, 2, 0]
   \<and> claw_state (sensors example_mambo) = PNone
   \<and> map_option (claw_id \<circ> sensors \<circ> snd)
        (update_sensors quiet_link claw_frame False example_mambo) = Some (PInt 1)
   \<and> map_option (claw_state \<circ> sensors \<circ> snd)
        (update_sensors quiet_link claw_frame False example_mambo) = Some (PStr ''OPENING'')
   \<and> map_option (claw_state \<circ> sensors \<circ> snd)
        (update_sensors quiet_link [2, 5, 2, 15, 1, 0, 1, 3, 77] False example_mambo)
      = Some (PStr ''OPENING'')"
proof -
  have h: "unpack_header claw_frame = Inr (2, 5, 2, 15, 1, 0)"
    by (simp add: unpack_header_def unpack_from_def claw_frame_def)
  have i: "map_option (claw_id \<circ> sensors \<circ> snd)
        (update_sensors quiet_link claw_frame False example_mambo) = Some (PInt 1)"
    by (simp add: update_sensors_def h example_claw_state claw_decode update_def
        enum_translate_def store_sensor_def)
  have "claw_state (sensors example_mambo) = PNone"
    by (simp add: example_mambo_def Mambo_init_def MamboSensors_init_def)
  then show ?thesis
    using i claw_later_bytes_unread [of quiet_link 2 0]
      claw_later_bytes_unread [of quiet_link 3 77]
    by (simp add: claw_frame_def)
qed

end
